theory Spec2Isabelle
  imports Main "HOL-Library.Sublist"
begin

section \<open>Test metadata and the link filter\<close>

text \<open>
  The handlers of \<^verbatim>\<open>api/metadata_handler.go\<close> work on \<^verbatim>\<open>shared.MetadataResults\<close>, a Go
  \<^verbatim>\<open>map[string]MetadataLinks\<close>. The declarations of the \<^verbatim>\<open>shared\<close> and \<^verbatim>\<open>query\<close> packages are
  not part of that file; the handlers only ever look at the \<^verbatim>\<open>URL\<close> field of a link and at the
  \<^verbatim>\<open>Pattern\<close> field of a link query.
\<close>

text \<open>Modelled from the spec: the declaration of \<^verbatim>\<open>shared.MetadataLink\<close> (a link record has a
  URL field, a string, and further annotation fields that the handlers never inspect).\<close>

record 'a MetadataLink =
  URL :: string
  annotations :: 'a

type_synonym 'a MetadataLinks = "'a MetadataLink list"

text \<open>A Go map value: test name to links. A key that is absent maps to \<open>None\<close>.\<close>

type_synonym 'a MetadataResults = "string \<rightharpoonup> 'a MetadataLinks"

text \<open>
  \<^verbatim>\<open>for test, links := range metadata\<close> visits every key of the map once, in an order that Go
  leaves unspecified. A map that is ranged over is therefore handed to the model as the
  sequence of its entries in the order of the visit: any list with pairwise distinct keys.
  The map it stands for is \<open>map_of\<close> of the list.
\<close>

type_synonym 'a MetadataEntries = "(string \<times> 'a MetadataLinks) list"

text \<open>Modelled from the spec: the declaration of \<^verbatim>\<open>query.AbstractLink\<close> (a pattern string that
  is matched against link URLs).\<close>

record AbstractLink =
  Pattern :: string

text \<open>
  \<^verbatim>\<open>strings.Contains(s, substr)\<close> of the Go standard library: whether \<open>substr\<close> occurs in
  \<open>s\<close> as a contiguous run of bytes. The search tries every start position in turn.
\<close>

fun Contains :: "string \<Rightarrow> string \<Rightarrow> bool" where
  "Contains [] substr = (substr = [])"
| "Contains (c # s) substr = (prefix substr (c # s) \<or> Contains s substr)"

text \<open>
  The inner loop of \<^verbatim>\<open>filterMetadata\<close>:
  \<^verbatim>\<open>for _, link := range links { if strings.Contains(link.URL, pattern) { res[test] = links; break } }\<close>.
  The fourth argument is the part of \<open>links\<close> still to be visited; the value stored is the
  whole slice \<open>links\<close>.
\<close>

fun linksLoop ::
  "string \<Rightarrow> string \<Rightarrow> 'a MetadataLinks \<Rightarrow> 'a MetadataLinks \<Rightarrow> 'a MetadataResults \<Rightarrow> 'a MetadataResults"
where
  "linksLoop pattern test links [] res = res"
| "linksLoop pattern test links (link # rest) res =
     (if Contains (URL link) pattern then res(test \<mapsto> links)
      else linksLoop pattern test links rest res)"

text \<open>The outer loop, over the entries of the map in the order of the visit.\<close>

fun rangeLoop :: "string \<Rightarrow> 'a MetadataEntries \<Rightarrow> 'a MetadataResults \<Rightarrow> 'a MetadataResults" where
  "rangeLoop pattern [] res = res"
| "rangeLoop pattern ((test, links) # rest) res =
     rangeLoop pattern rest (linksLoop pattern test links links res)"

text \<open>\<^verbatim>\<open>res := make(shared.MetadataResults)\<close>, the two loops, \<^verbatim>\<open>return res\<close>.\<close>

definition filterMetadata :: "AbstractLink \<Rightarrow> 'a MetadataEntries \<Rightarrow> 'a MetadataResults" where
  "filterMetadata linkQuery metadata = rangeLoop (Pattern linkQuery) metadata Map.empty"

subsection \<open>The filter on a store of map objects\<close>

text \<open>
  A Go map is a reference: \<^verbatim>\<open>filterMetadata\<close> receives the address of the caller's map and
  returns the address of the map it makes. To say what the function writes, the same code is
  read here over a store of map objects, addressed by their index. \<^verbatim>\<open>make\<close> allocates at the
  end of the store; \<^verbatim>\<open>res[test] = links\<close> is the only write of the function. Slices are kept
  as values: the function never writes through one.
\<close>

type_synonym 'a Store = "'a MetadataResults list"

definition make_MetadataResults :: "'a Store \<Rightarrow> nat \<times> 'a Store" where
  "make_MetadataResults st = (length st, st @ [Map.empty])"

definition store_assign :: "nat \<Rightarrow> string \<Rightarrow> 'a MetadataLinks \<Rightarrow> 'a Store \<Rightarrow> 'a Store" where
  "store_assign res test links st = st[res := (st ! res)(test \<mapsto> links)]"

fun linksLoop_st ::
  "string \<Rightarrow> nat \<Rightarrow> string \<Rightarrow> 'a MetadataLinks \<Rightarrow> 'a MetadataLinks \<Rightarrow> 'a Store \<Rightarrow> 'a Store"
where
  "linksLoop_st pattern res test links [] st = st"
| "linksLoop_st pattern res test links (link # rest) st =
     (if Contains (URL link) pattern then store_assign res test links st
      else linksLoop_st pattern res test links rest st)"

text \<open>
  The outer loop over the keys of the map at address \<open>metadata\<close>, in the order of the visit;
  the links of a key are read from the store when the key is visited.
\<close>

fun rangeLoop_st :: "string \<Rightarrow> nat \<Rightarrow> nat \<Rightarrow> string list \<Rightarrow> 'a Store \<Rightarrow> 'a Store" where
  "rangeLoop_st pattern metadata res [] st = st"
| "rangeLoop_st pattern metadata res (test # rest) st =
     (case (st ! metadata) test of
        None \<Rightarrow> rangeLoop_st pattern metadata res rest st
      | Some links \<Rightarrow>
          rangeLoop_st pattern metadata res rest (linksLoop_st pattern res test links links st))"

definition filterMetadata_st ::
  "AbstractLink \<Rightarrow> nat \<Rightarrow> string list \<Rightarrow> 'a Store \<Rightarrow> nat \<times> 'a Store"
where
  "filterMetadata_st linkQuery metadata visit st =
     (case make_MetadataResults st of
        (res, st1) \<Rightarrow> (res, rangeLoop_st (Pattern linkQuery) metadata res visit st1))"

subsection \<open>What the filter is specified to keep\<close>

text \<open>
  The specification's criterion for keeping an entry: some link of the entry has a URL that
  contains the pattern as a contiguous substring (\<open>sublist\<close>, which compares bytes, so the
  match is case-sensitive).
\<close>

definition hasMatch :: "string \<Rightarrow> 'a MetadataLinks \<Rightarrow> bool" where
  "hasMatch pattern links = (\<exists>link \<in> set links. sublist pattern (URL link))"

section \<open>Requests and responses\<close>

text \<open>
  \<^verbatim>\<open>net/http\<close> is the Go standard library. The model keeps what the handlers observe of it.
  A URL is kept by the two observations the handlers make: \<^verbatim>\<open>r.URL.String()\<close> and
  \<^verbatim>\<open>r.URL.Query()\<close>.
\<close>

record url =
  URL_String :: string
  URL_Query :: "(string \<times> string list) list"

text \<open>
  \<^verbatim>\<open>r.Body\<close> is an \<^verbatim>\<open>io.ReadCloser\<close>: \<open>pending\<close> are the bytes not yet read, \<open>read_err\<close> the
  error the stream reports after them (\<open>None\<close> for a clean end of input), \<open>close_err\<close> what
  \<^verbatim>\<open>Close\<close> returns, and \<open>closed\<close> whether \<^verbatim>\<open>Close\<close> has been called on the stream.
\<close>

record RequestBody =
  pending :: string
  read_err :: "string option"
  close_err :: "string option"
  closed :: bool

record Request =
  Method :: string
  RequestURL :: url
  Header :: "string \<rightharpoonup> string list"
  Body :: RequestBody

text \<open>\<^verbatim>\<open>ioutil.ReadAll\<close>: drains the stream; returns the bytes read and the error, if any.\<close>

definition ReadAll :: "RequestBody \<Rightarrow> RequestBody \<times> string \<times> string option" where
  "ReadAll b = (b\<lparr>pending := []\<rparr>, pending b, read_err b)"

definition Close :: "RequestBody \<Rightarrow> RequestBody \<times> string option" where
  "Close b = (b\<lparr>closed := True\<rparr>, close_err b)"

text \<open>\<^verbatim>\<open>ioutil.NopCloser(bytes.NewBuffer(data))\<close>: a fresh in-memory stream over \<open>data\<close>; reading
  it cannot fail and closing it returns no error.\<close>

definition NopCloser_NewBuffer :: "string \<Rightarrow> RequestBody" where
  "NopCloser_NewBuffer data = \<lparr>pending = data, read_err = None, close_err = None, closed = False\<rparr>"

text \<open>\<^verbatim>\<open>r.Header.Get(key)\<close>: the first value stored under the key, or the empty string.
  (The key \<^verbatim>\<open>Content-Type\<close> is already in canonical form.)\<close>

definition Header_Get :: "(string \<rightharpoonup> string list) \<Rightarrow> string \<Rightarrow> string" where
  "Header_Get h key = (case h key of None \<Rightarrow> [] | Some [] \<Rightarrow> [] | Some (v # _) \<Rightarrow> v)"

abbreviation StatusOK :: nat where "StatusOK \<equiv> 200"
abbreviation StatusCreated :: nat where "StatusCreated \<equiv> 201"
abbreviation StatusBadRequest :: nat where "StatusBadRequest \<equiv> 400"
abbreviation StatusInternalServerError :: nat where "StatusInternalServerError \<equiv> 500"

text \<open>
  What a handler has written to its \<^verbatim>\<open>http.ResponseWriter\<close>: the status code, once a header
  has been written, and the body bytes. A handler that returns without writing anything is
  answered by the server with status 200 and an empty body.
\<close>

record ResponseWriter =
  rw_status :: "nat option"
  rw_body :: string

definition newResponseWriter :: ResponseWriter where
  "newResponseWriter = \<lparr>rw_status = None, rw_body = []\<rparr>"

text \<open>\<^verbatim>\<open>w.WriteHeader(code)\<close>: only the first call sets the status.\<close>

definition WriteHeader :: "ResponseWriter \<Rightarrow> nat \<Rightarrow> ResponseWriter" where
  "WriteHeader w code =
     (case rw_status w of None \<Rightarrow> w\<lparr>rw_status := Some code\<rparr> | Some _ \<Rightarrow> w)"

text \<open>Body bytes reaching the writer; the first write sends status 200 if none was set.\<close>

definition rw_append :: "ResponseWriter \<Rightarrow> string \<Rightarrow> ResponseWriter" where
  "rw_append w bytes = (WriteHeader w StatusOK)\<lparr>rw_body := rw_body w @ bytes\<rparr>"

text \<open>\<^verbatim>\<open>http.Error(w, msg, code)\<close>: \<^verbatim>\<open>w.WriteHeader(code)\<close>, then \<^verbatim>\<open>fmt.Fprintln(w, msg)\<close>, whose
  result it discards.\<close>

definition http_Error :: "ResponseWriter \<Rightarrow> string \<Rightarrow> nat \<Rightarrow> ResponseWriter" where
  "http_Error w msg code = rw_append (WriteHeader w code) (msg @ [CHR 0x0A])"

section \<open>Cache keys\<close>

text \<open>Modelled from the spec: \<^verbatim>\<open>shared.URLAsCacheKey\<close>, which \<^verbatim>\<open>cacheKey\<close> calls for GET requests
  and which is declared in the \<^verbatim>\<open>shared\<close> package. The specification gives the key of a GET request as the
  canonical request URL string and says the body is never consulted for it.\<close>

definition URLAsCacheKey :: "Request \<Rightarrow> string" where
  "URLAsCacheKey r = URL_String (RequestURL r)"

text \<open>What \<^verbatim>\<open>cacheKey\<close> does besides returning: the error it logs, and the deferred
  \<^verbatim>\<open>body.Close()\<close> on the stream the request arrived with.\<close>

datatype cache_effect = Logger_Errorf string | Body_Close

text \<open>
  \<^verbatim>\<open>cacheKey\<close>. The result is \<open>Inl msg\<close> for \<^verbatim>\<open>panic(msg)\<close> and \<open>Inr key\<close> for a returned key;
  with it come the request as the function leaves it (\<^verbatim>\<open>r.Body\<close> is reassigned on the
  success path and drained on the other) and the effects in order. The \<^verbatim>\<open>defer\<close> is reached
  only after the error check, so a panic leaves the stream unclosed.
\<close>

definition cacheKey :: "Request \<Rightarrow> (string + string) \<times> Request \<times> cache_effect list" where
  "cacheKey r =
     (if Method r = ''GET'' then (Inr (URLAsCacheKey r), r, [])
      else
        (case ReadAll (Body r) of
           (drained, data, Some err) \<Rightarrow>
             (let msg = ''Failed to read non-GET request body for generating cache key: '' @ err
              in (Inl msg, r\<lparr>Body := drained\<rparr>, [Logger_Errorf msg]))
         | (drained, data, None) \<Rightarrow>
             (Inr (URL_String (RequestURL r) @ ''#'' @ data),
              r\<lparr>Body := NopCloser_NewBuffer data\<rparr>,
              [Body_Close])))"

section \<open>The triage handler\<close>

text \<open>Modelled from the spec: the declaration of \<^verbatim>\<open>shared.User\<close>; the handler reads the two
  fields it attributes the change to (the second is spelled as in the source).\<close>

record User =
  GitHubHandle :: string
  GithuhEmail :: string

text \<open>\<^verbatim>\<open>metadataGithub\<close> and \<^verbatim>\<open>triageMetadata\<close> as the handler builds them. The context, logger
  and HTTP client handles that \<^verbatim>\<open>triageMetadata\<close> also carries are ambient and left out.\<close>

record 'cl metadataGithub =
  githubClient :: 'cl
  authorName :: string
  authorEmail :: string

record 'cl triageMetadata =
  tm_metadataGithub :: "'cl metadataGithub"

text \<open>
  The collaborators of the handler, all declared in other packages, as parameters. An
  operation that returns \<^verbatim>\<open>(value, error)\<close> is a sum with the error message on the left. The
  two calls on the user's \<^verbatim>\<open>github.Client\<close> take the access token the client was built from
  as their first argument and return \<^verbatim>\<open>(_, res, err)\<close>: the handler looks at \<^verbatim>\<open>err\<close> first and
  at \<^verbatim>\<open>res.StatusCode\<close> only when \<^verbatim>\<open>err\<close> is nil, so the result is the error or else the
  status code.
\<close>

record ('a, 'cl) triage_env =
  Unmarshal_MetadataResults :: "string \<Rightarrow> string + 'a MetadataResults"
  GetUserFromCookie :: "Request \<Rightarrow> User option \<times> string option"
  GetSecret :: "string \<Rightarrow> string + string"
  Authorizations_Check :: "string \<Rightarrow> string \<Rightarrow> string \<Rightarrow> string + nat"
  Organizations_GetOrgMembership :: "string \<Rightarrow> string \<Rightarrow> string \<Rightarrow> string + nat"
  GetGithubClientFromToken :: "string \<Rightarrow> string + 'cl"
  triage :: "'cl triageMetadata \<Rightarrow> 'a MetadataResults \<Rightarrow> string option"

text \<open>The calls to collaborators that a run of the handler makes, in order.\<close>

datatype ('a, 'cl) call =
  Call_GetUserFromCookie
| Call_GetSecret string
| Call_Authorizations_Check string string string
| Call_GetOrgMembership string string string
| Call_GetGithubClientFromToken string
| Call_triage "'cl triageMetadata" "'a MetadataResults"

text \<open>The three operations of the remote hosting API: token check, membership check and
  submission.\<close>

fun remote_call :: "('a, 'cl) call \<Rightarrow> bool" where
  "remote_call (Call_Authorizations_Check _ _ _) = True"
| "remote_call (Call_GetOrgMembership _ _ _) = True"
| "remote_call (Call_triage _ _) = True"
| "remote_call _ = False"

fun is_submission :: "('a, 'cl) call \<Rightarrow> bool" where
  "is_submission (Call_triage _ _) = True"
| "is_submission _ = False"

text \<open>\<^verbatim>\<open>getWPTFYIGithubBot\<close>: the client for the named bot token, or the error of the lookup.\<close>

definition getWPTFYIGithubBot :: "('a, 'cl) triage_env \<Rightarrow> string + 'cl" where
  "getWPTFYIGithubBot env =
     (case GetGithubClientFromToken env ''github-wpt-fyi-bot-token'' of
        Inl err \<Rightarrow> Inl err
      | Inr client \<Rightarrow> Inr client)"

text \<open>
  \<^verbatim>\<open>apiMetadataTriageHandler\<close>: what it has written to \<open>w\<close> when it returns, and the calls it
  made. The statements that only build handles (the App Engine context, API, logger and
  datastore; the OAuth token source and the GitHub client over it) send nothing and are not
  recorded as calls.
\<close>

definition apiMetadataTriageHandler ::
  "('a, 'cl) triage_env \<Rightarrow> ResponseWriter \<Rightarrow> Request \<Rightarrow> ResponseWriter \<times> ('a, 'cl) call list"
where
  "apiMetadataTriageHandler env w r =
     (if Method r \<noteq> ''PATCH'' then
        (http_Error w ''Invalid HTTP method; only accpet PATCH request'' StatusBadRequest, [])
      else
        let contentType = Header_Get (Header r) ''Content-Type'' in
        if contentType \<noteq> ''application/json'' then
          (http_Error w (''Invalid content-type: %s'' @ contentType) StatusBadRequest, [])
        else
          (case ReadAll (Body r) of
             (drained, data, Some err) \<Rightarrow>
               (http_Error w ''Failed to read PATCH request body'' StatusInternalServerError, [])
           | (drained, data, None) \<Rightarrow>
          (case Close drained of
             (_, Some err) \<Rightarrow>
               (http_Error w ''Failed to finish reading request body'' StatusInternalServerError, [])
           | (_, None) \<Rightarrow>
          (case Unmarshal_MetadataResults env data of
             Inl err \<Rightarrow> (http_Error w (''Failed to parse JSON: '' @ err) StatusBadRequest, [])
           | Inr metadata \<Rightarrow>
          (let log1 = [Call_GetUserFromCookie] in
           case GetUserFromCookie env r of
             (None, _) \<Rightarrow> (http_Error w ''User is not logged in'' StatusBadRequest, log1)
           | (Some user, None) \<Rightarrow> (http_Error w ''User is not logged in'' StatusBadRequest, log1)
           | (Some user, Some token) \<Rightarrow>
          (let log2 = log1 @ [Call_GetSecret ''github-oauth-client-id''] in
           case GetSecret env ''github-oauth-client-id'' of
             Inl err \<Rightarrow>
               (http_Error w (''Failed to get github-oauth-client-id secret: '' @ err)
                  StatusInternalServerError, log2)
           | Inr clientID \<Rightarrow>
          (let log3 = log2 @ [Call_Authorizations_Check token clientID token] in
           case Authorizations_Check env token clientID token of
             Inl err \<Rightarrow>
               (http_Error w (''Fail to validate user token '' @ err) StatusInternalServerError,
                log3)
           | Inr StatusCode \<Rightarrow>
          (if StatusCode \<noteq> StatusOK then
             (http_Error w ''User token invalid; please log in again. '' StatusBadRequest, log3)
           else
           let log4 = log3 @ [Call_GetOrgMembership token [] ''web-platform-tests''] in
           case Organizations_GetOrgMembership env token [] ''web-platform-tests'' of
             Inl err \<Rightarrow>
               (http_Error w (''Fail to validate web-platform-tests membership: '' @ err)
                  StatusInternalServerError, log4)
           | Inr StatusCode \<Rightarrow>
          (if StatusCode \<noteq> StatusOK then
             (http_Error w ''User is not a part of web-platform-tests'' StatusBadRequest, log4)
           else
           let log5 = log4 @ [Call_GetGithubClientFromToken ''github-wpt-fyi-bot-token''] in
           case getWPTFYIGithubBot env of
             Inl err \<Rightarrow>
               (http_Error w (''Unable to get Github Client: '' @ err) StatusInternalServerError,
                log5)
           | Inr githubBotClient \<Rightarrow>
          (let git = \<lparr>githubClient = githubBotClient, authorName = GitHubHandle user,
                      authorEmail = GithuhEmail user\<rparr>;
               tm = \<lparr>tm_metadataGithub = git\<rparr>;
               log6 = log5 @ [Call_triage tm metadata]
           in case triage env tm metadata of
                Some err \<Rightarrow>
                  (http_Error w (''Unable to triage metadata: '' @ err)
                     StatusInternalServerError, log6)
              | None \<Rightarrow> (WriteHeader w StatusCreated, log6)))))))))))"

subsection \<open>The steps of triage authorization\<close>

text \<open>
  The specification's progression, as conditions on the request and on what the
  collaborators answer. Each condition includes the ones before it.
\<close>

definition passes_method :: "Request \<Rightarrow> bool" where
  "passes_method r = (Method r = ''PATCH'')"

definition passes_content_type :: "Request \<Rightarrow> bool" where
  "passes_content_type r =
     (passes_method r \<and> Header_Get (Header r) ''Content-Type'' = ''application/json'')"

definition passes_decode :: "('a, 'cl) triage_env \<Rightarrow> Request \<Rightarrow> 'a MetadataResults \<Rightarrow> bool" where
  "passes_decode env r metadata =
     (passes_content_type r \<and> read_err (Body r) = None \<and> close_err (Body r) = None \<and>
      Unmarshal_MetadataResults env (pending (Body r)) = Inr metadata)"

definition passes_session ::
  "('a, 'cl) triage_env \<Rightarrow> Request \<Rightarrow> 'a MetadataResults \<Rightarrow> User \<Rightarrow> string \<Rightarrow> bool"
where
  "passes_session env r metadata user token =
     (passes_decode env r metadata \<and> GetUserFromCookie env r = (Some user, Some token))"

definition passes_token_check ::
  "('a, 'cl) triage_env \<Rightarrow> Request \<Rightarrow> 'a MetadataResults \<Rightarrow> User \<Rightarrow> string \<Rightarrow> string \<Rightarrow> bool"
where
  "passes_token_check env r metadata user token clientID =
     (passes_session env r metadata user token \<and>
      GetSecret env ''github-oauth-client-id'' = Inr clientID \<and>
      Authorizations_Check env token clientID token = Inr StatusOK)"

definition passes_membership ::
  "('a, 'cl) triage_env \<Rightarrow> Request \<Rightarrow> 'a MetadataResults \<Rightarrow> User \<Rightarrow> string \<Rightarrow> string \<Rightarrow> bool"
where
  "passes_membership env r metadata user token clientID =
     (passes_token_check env r metadata user token clientID \<and>
      Organizations_GetOrgMembership env token [] ''web-platform-tests'' = Inr StatusOK)"

text \<open>The calls an authorized request has made when authorization is complete.\<close>

definition authorization_calls :: "string \<Rightarrow> string \<Rightarrow> ('a, 'cl) call list" where
  "authorization_calls token clientID =
     [Call_GetUserFromCookie, Call_GetSecret ''github-oauth-client-id'',
      Call_Authorizations_Check token clientID token,
      Call_GetOrgMembership token [] ''web-platform-tests'']"

subsection \<open>What the GitHub client returns\<close>

text \<open>
  The two checks go through \<^verbatim>\<open>github.com/google/go-github/v28\<close>, a library outside this
  repository. What the remote hosting API did with a request is either that no response
  arrived or a response with a status code.
\<close>

datatype upstream = Transport_Failure string | Upstream_Status nat

text \<open>
  The library's contract, as far as the handler depends on it: a call returns a nil error
  only together with a response whose status is in the range 200 to 299; a failed
  transport and every response with a status outside that range come back as a non-nil
  error (for the latter \<^verbatim>\<open>CheckResponse\<close> builds it). The relation says which results
  \<^verbatim>\<open>(res, err)\<close>, in the form the handler reads them, a call may return for an upstream
  outcome; it leaves open whether a response in the range is returned without an error.
\<close>

fun go_github_returns :: "upstream \<Rightarrow> string + nat \<Rightarrow> bool" where
  "go_github_returns (Transport_Failure e) (Inl err) = True"
| "go_github_returns (Transport_Failure e) (Inr StatusCode) = False"
| "go_github_returns (Upstream_Status c) (Inl err) = True"
| "go_github_returns (Upstream_Status c) (Inr StatusCode) =
     (StatusCode = c \<and> 200 \<le> c \<and> c \<le> 299)"

section \<open>The metadata query handler\<close>

text \<open>Modelled from the spec: the declarations of \<^verbatim>\<open>query.AbstractQuery\<close> (an interface: a link
  predicate or a node of some other kind) and \<^verbatim>\<open>query.AbstractExists\<close> (a structured query
  with an argument list).\<close>

datatype 'q AbstractQuery = Link AbstractLink | OtherQuery 'q

record 'q AbstractExists =
  Args :: "'q AbstractQuery list"

text \<open>The type assertion \<^verbatim>\<open>x.(query.AbstractLink)\<close> in its two-result form: the value and
  \<^verbatim>\<open>true\<close>, or the zero value and \<^verbatim>\<open>false\<close>.\<close>

definition zero_AbstractLink :: AbstractLink where
  "zero_AbstractLink = \<lparr>Pattern = []\<rparr>"

fun assert_AbstractLink :: "'q AbstractQuery \<Rightarrow> AbstractLink \<times> bool" where
  "assert_AbstractLink (Link l) = (l, True)"
| "assert_AbstractLink (OtherQuery _) = (zero_AbstractLink, False)"

text \<open>\<^verbatim>\<open>MetadataHandler\<close>; its logger and HTTP client are ambient handles.\<close>

record MetadataHandler =
  metadataURL :: string

text \<open>
  The collaborators of \<^verbatim>\<open>ServeHTTP\<close> as parameters. The metadata fetch returns the map by its
  entries in the order a later \<^verbatim>\<open>range\<close> visits them. \<open>Write_result\<close> is what
  \<^verbatim>\<open>w.Write(marshalled)\<close> returns: the number of bytes written and the error.
\<close>

record ('a, 'q, 'ps) metadata_env =
  Unmarshal_AbstractExists :: "string \<Rightarrow> string + 'q AbstractExists"
  ParseProductOrBrowserParams :: "(string \<times> string list) list \<Rightarrow> string + 'ps list"
  GetMetadataResponseOnProducts :: "'ps list \<Rightarrow> string \<Rightarrow> string + 'a MetadataEntries"
  Marshal :: "'a MetadataResults \<Rightarrow> string + string"
  Write_result :: "string \<Rightarrow> nat \<times> string option"

datatype ('q, 'ps) metadata_effect =
  Log_Errorf string "'q AbstractExists"
| Call_GetMetadataResponseOnProducts "'ps list" string

fun is_fetch :: "('q, 'ps) metadata_effect \<Rightarrow> bool" where
  "is_fetch (Call_GetMetadataResponseOnProducts _ _) = True"
| "is_fetch _ = False"

definition ResponseWriter_Write ::
  "('a, 'q, 'ps) metadata_env \<Rightarrow> ResponseWriter \<Rightarrow> string \<Rightarrow> ResponseWriter \<times> string option"
where
  "ResponseWriter_Write env w bytes =
     (case Write_result env bytes of (n, err) \<Rightarrow> (rw_append w (take n bytes), err))"

text \<open>\<^verbatim>\<open>MetadataHandler.ServeHTTP\<close>. The first \<open>case\<close> is the POST block: \<open>Inl\<close> is one of its
  early returns, \<open>Inr\<close> the value of \<^verbatim>\<open>abstractLink\<close> with which the function goes on.\<close>

definition ServeHTTP ::
  "MetadataHandler \<Rightarrow> ('a, 'q, 'ps) metadata_env \<Rightarrow> ResponseWriter \<Rightarrow> Request \<Rightarrow>
     ResponseWriter \<times> ('q, 'ps) metadata_effect list"
where
  "ServeHTTP h env w r =
     (case
        (if Method r = ''POST'' then
           (case ReadAll (Body r) of
              (drained, data, Some err) \<Rightarrow>
                Inl (http_Error w ''Failed to read request body'' StatusInternalServerError, [])
            | (drained, data, None) \<Rightarrow>
           (case Close drained of
              (_, Some err) \<Rightarrow>
                Inl (http_Error w ''Failed to finish reading request body''
                       StatusInternalServerError, [])
            | (_, None) \<Rightarrow>
           (case Unmarshal_AbstractExists env data of
              Inl err \<Rightarrow> Inl (http_Error w err StatusBadRequest, [])
            | Inr ae \<Rightarrow>
           (case (if length (Args ae) = 1 then assert_AbstractLink (Args ae ! 0)
                  else (zero_AbstractLink, False)) of
              (abstractLink, isLinkQuery) \<Rightarrow>
                if \<not> isLinkQuery then
                  Inl (http_Error w ''Error from request: non Link search query for api/metadata''
                         StatusBadRequest,
                       [Log_Errorf
                          ''Error from request: non Link search query %s for api/metadata'' ae])
                else Inr abstractLink))))
         else Inr zero_AbstractLink)
      of
        Inl early \<Rightarrow> early
      | Inr abstractLink \<Rightarrow>
     (let q = URL_Query (RequestURL r) in
      case ParseProductOrBrowserParams env q of
        Inl err \<Rightarrow> (http_Error w err StatusBadRequest, [])
      | Inr productSpecs \<Rightarrow>
     (if length productSpecs = 0 then
        (http_Error w ''Missing required 'product' param'' StatusBadRequest, [])
      else
      let log1 = [Call_GetMetadataResponseOnProducts productSpecs (metadataURL h)] in
      case GetMetadataResponseOnProducts env productSpecs (metadataURL h) of
        Inl err \<Rightarrow> (http_Error w err StatusInternalServerError, log1)
      | Inr fetched \<Rightarrow>
     (let metadataResponse =
            (if Method r = ''POST'' then filterMetadata abstractLink fetched else map_of fetched)
      in case Marshal env metadataResponse of
           Inl err \<Rightarrow> (http_Error w err StatusInternalServerError, log1)
         | Inr marshalled \<Rightarrow>
        (case ResponseWriter_Write env w marshalled of
           (w', Some err) \<Rightarrow> (http_Error w' err StatusInternalServerError, log1)
         | (w', None) \<Rightarrow> (w', log1))))))"

section \<open>Example data\<close>

text \<open>Three tests: one with a matching link in second place, one whose only link differs
  from the pattern in case, one with no links.\<close>

definition ex_link :: "string \<Rightarrow> unit MetadataLink" where
  "ex_link u = \<lparr>URL = u, annotations = ()\<rparr>"

definition ex_metadata :: "unit MetadataEntries" where
  "ex_metadata =
     [(''/a.html'', [ex_link ''https://other.example'', ex_link ''https://tracker.example/bug/1'']),
      (''/b.html'', [ex_link ''https://tracker.example/BUG/2'']),
      (''/c.html'', [])]"

text \<open>A request, and collaborators of the triage handler that answer the same whatever they
  are asked.\<close>

definition ex_request :: "string \<Rightarrow> string \<Rightarrow> string \<Rightarrow> string option \<Rightarrow> Request" where
  "ex_request m ctype bytes rerr =
     \<lparr>Method = m,
      RequestURL = \<lparr>URL_String = ''/api/metadata?product=chrome'',
                    URL_Query = [(''product'', [''chrome''])]\<rparr>,
      Header = [''Content-Type'' \<mapsto> [ctype]],
      Body = \<lparr>pending = bytes, read_err = rerr, close_err = None, closed = False\<rparr>\<rparr>"

definition ex_user :: User where
  "ex_user = \<lparr>GitHubHandle = ''octocat'', GithuhEmail = ''octocat@example.org''\<rparr>"

definition ex_triage_env ::
  "string + unit MetadataResults \<Rightarrow> User option \<times> string option \<Rightarrow> string + string \<Rightarrow>
   string + nat \<Rightarrow> string + nat \<Rightarrow> string + unit \<Rightarrow> string option \<Rightarrow> (unit, unit) triage_env"
where
  "ex_triage_env decoded session secret check membership client submitted =
     \<lparr>Unmarshal_MetadataResults = (\<lambda>_. decoded),
      GetUserFromCookie = (\<lambda>_. session),
      GetSecret = (\<lambda>_. secret),
      Authorizations_Check = (\<lambda>_ _ _. check),
      Organizations_GetOrgMembership = (\<lambda>_ _ _. membership),
      GetGithubClientFromToken = (\<lambda>_. client),
      triage = (\<lambda>_ _. submitted)\<rparr>"

definition ex_patch :: Request where
  "ex_patch = ex_request ''PATCH'' ''application/json'' ''{}'' None"

definition ex_session :: "User option \<times> string option" where
  "ex_session = (Some ex_user, Some ''tok'')"

text \<open>Every collaborator succeeds: the request is authorized and the submission goes through.\<close>

definition ex_env_ok :: "(unit, unit) triage_env" where
  "ex_env_ok =
     ex_triage_env (Inr Map.empty) ex_session (Inr ''id'') (Inr 200) (Inr 200) (Inr ()) None"

text \<open>Collaborators of the metadata query handler: the decoded query is given, the product
  list is one product, the fetch returns the example metadata.\<close>

definition ex_metadata_env :: "string + unit AbstractExists \<Rightarrow> (unit, unit, string) metadata_env" where
  "ex_metadata_env decoded =
     \<lparr>Unmarshal_AbstractExists = (\<lambda>_. decoded),
      ParseProductOrBrowserParams = (\<lambda>_. Inr [''chrome'']),
      GetMetadataResponseOnProducts = (\<lambda>_ _. Inr ex_metadata),
      Marshal = (\<lambda>_. Inr ''{}''),
      Write_result = (\<lambda>bytes. (length bytes, None))\<rparr>"

definition ex_handler :: MetadataHandler where
  "ex_handler = \<lparr>metadataURL = ''https://metadata.example/archive''\<rparr>"

definition ex_post :: Request where
  "ex_post = ex_request ''POST'' ''application/json'' ''{}'' None"

section \<open>Properties of the link filter\<close>

lemma Contains_sublist: "Contains s substr \<longleftrightarrow> sublist substr s"
  by (induction s) (simp_all add: sublist_Cons_right)

lemma Contains_empty: "Contains s []"
  by (simp add: Contains_sublist)

lemma linksLoop_eq:
  "linksLoop pattern test links todo res =
     (if hasMatch pattern todo then res(test \<mapsto> links) else res)"
  by (induction todo) (auto simp: hasMatch_def Contains_sublist)

lemma rangeLoop_notin:
  "test \<notin> fst ` set es \<Longrightarrow> rangeLoop pattern es res test = res test"
  by (induction es arbitrary: res) (auto simp: linksLoop_eq)

lemma rangeLoop_eq:
  "distinct (map fst es) \<Longrightarrow>
   rangeLoop pattern es res test =
     (case map_of es test of
        None \<Rightarrow> res test
      | Some links \<Rightarrow> if hasMatch pattern links then Some links else res test)"
proof (induction es arbitrary: res)
  case Nil
  then show ?case by simp
next
  case (Cons e es)
  obtain k links where e: "e = (k, links)" by (cases e)
  from Cons.prems e have notin: "k \<notin> fst ` set es" and dist: "distinct (map fst es)"
    by simp_all
  show ?case
  proof (cases "test = k")
    case True
    with notin have "rangeLoop pattern es (linksLoop pattern k links links res) test =
        linksLoop pattern k links links res test"
      by (simp add: rangeLoop_notin)
    with True e show ?thesis by (simp add: linksLoop_eq)
  next
    case False
    with e Cons.IH [OF dist] show ?thesis
      by (simp add: linksLoop_eq split: option.splits)
  qed
qed

lemma filterMetadata_eq:
  "distinct (map fst metadata) \<Longrightarrow>
   filterMetadata linkQuery metadata test =
     (case map_of metadata test of
        None \<Rightarrow> None
      | Some links \<Rightarrow> if hasMatch (Pattern linkQuery) links then Some links else None)"
  by (simp add: filterMetadata_def rangeLoop_eq)

lemma sublist_eval: "sublist xs ys \<longleftrightarrow> Contains ys xs"
  by (simp add: Contains_sublist)

text \<open>
  C3. For a map given by its entries in any order of visit, the filter keeps a test exactly
  when one of its links has a URL containing the pattern as a substring, compared byte by
  byte; a kept test keeps its whole link list. So the keys of the result are keys of the
  input, every kept entry has a link containing the pattern, and with the empty pattern
  exactly the entries with a non-empty link list are kept.
\<close>

theorem filterMetadata_keeps_matching:
  assumes "distinct (map fst metadata)"
  shows "filterMetadata linkQuery metadata test =
           (case map_of metadata test of
              None \<Rightarrow> None
            | Some links \<Rightarrow> if hasMatch (Pattern linkQuery) links then Some links else None)
       \<and> (test \<in> dom (filterMetadata linkQuery metadata) \<longleftrightarrow>
            (\<exists>links. map_of metadata test = Some links \<and>
               (\<exists>link \<in> set links. sublist (Pattern linkQuery) (URL link))))
       \<and> (\<forall>links. filterMetadata linkQuery metadata test = Some links \<longrightarrow>
            map_of metadata test = Some links \<and>
            (\<exists>link \<in> set links. sublist (Pattern linkQuery) (URL link)))
       \<and> dom (filterMetadata linkQuery metadata) \<subseteq> dom (map_of metadata)
       \<and> (Pattern linkQuery = [] \<longrightarrow>
            dom (filterMetadata linkQuery metadata) =
              {t. \<exists>links. map_of metadata t = Some links \<and> links \<noteq> []})"
proof -
  note eq = filterMetadata_eq [OF assms, of linkQuery]
  have 1: "filterMetadata linkQuery metadata test =
           (case map_of metadata test of
              None \<Rightarrow> None
            | Some links \<Rightarrow> if hasMatch (Pattern linkQuery) links then Some links else None)"
    by (rule eq)
  have 2: "test \<in> dom (filterMetadata linkQuery metadata) \<longleftrightarrow>
            (\<exists>links. map_of metadata test = Some links \<and>
               (\<exists>link \<in> set links. sublist (Pattern linkQuery) (URL link)))"
    by (simp add: dom_def eq hasMatch_def split: option.splits)
  have 3: "\<forall>links. filterMetadata linkQuery metadata test = Some links \<longrightarrow>
            map_of metadata test = Some links \<and>
            (\<exists>link \<in> set links. sublist (Pattern linkQuery) (URL link))"
    by (simp add: eq hasMatch_def split: option.splits)
  have 4: "dom (filterMetadata linkQuery metadata) \<subseteq> dom (map_of metadata)"
    by (auto simp: eq split: option.splits if_splits)
  have 5: "Pattern linkQuery = [] \<longrightarrow>
            dom (filterMetadata linkQuery metadata) =
              {t. \<exists>links. map_of metadata t = Some links \<and> links \<noteq> []}"
  proof
    assume e: "Pattern linkQuery = []"
    have "hasMatch [] links \<longleftrightarrow> links \<noteq> []" for links :: "'a MetadataLinks"
      by (cases links) (auto simp: hasMatch_def)
    with e show "dom (filterMetadata linkQuery metadata) =
              {t. \<exists>links. map_of metadata t = Some links \<and> links \<noteq> []}"
      by (auto simp: eq split: option.splits if_splits)
  qed
  from 1 2 3 4 5 show ?thesis by blast
qed

theorem filterMetadata_keeps_matching_witness:
  "distinct (map fst ex_metadata)
   \<and> filterMetadata \<lparr>Pattern = ''bug''\<rparr> ex_metadata ''/a.html'' =
       Some [ex_link ''https://other.example'', ex_link ''https://tracker.example/bug/1'']
   \<and> filterMetadata \<lparr>Pattern = ''bug''\<rparr> ex_metadata ''/b.html'' = None
   \<and> ''/a.html'' \<in> dom (filterMetadata \<lparr>Pattern = ''bug''\<rparr> ex_metadata)
   \<and> dom (filterMetadata \<lparr>Pattern = ''bug''\<rparr> ex_metadata) \<subseteq> dom (map_of ex_metadata)
   \<and> dom (filterMetadata \<lparr>Pattern = []\<rparr> ex_metadata) = {''/a.html'', ''/b.html''}"
proof -
  have d: "distinct (map fst ex_metadata)" by (simp add: ex_metadata_def)
  note a = filterMetadata_keeps_matching [OF d, of "\<lparr>Pattern = ''bug''\<rparr>" "''/a.html''"]
  note b = filterMetadata_keeps_matching [OF d, of "\<lparr>Pattern = ''bug''\<rparr>" "''/b.html''"]
  note c = filterMetadata_keeps_matching [OF d, of "\<lparr>Pattern = []\<rparr>" "''/c.html''"]
  have 1: "filterMetadata \<lparr>Pattern = ''bug''\<rparr> ex_metadata ''/a.html'' =
       Some [ex_link ''https://other.example'', ex_link ''https://tracker.example/bug/1'']"
    using a [THEN conjunct1]
    by (simp add: ex_metadata_def ex_link_def hasMatch_def sublist_eval)
  have 2: "filterMetadata \<lparr>Pattern = ''bug''\<rparr> ex_metadata ''/b.html'' = None"
    using b [THEN conjunct1]
    by (simp add: ex_metadata_def ex_link_def hasMatch_def sublist_eval)
  have 3: "''/a.html'' \<in> dom (filterMetadata \<lparr>Pattern = ''bug''\<rparr> ex_metadata)"
    using 1 by (simp add: dom_def)
  have 4: "dom (filterMetadata \<lparr>Pattern = ''bug''\<rparr> ex_metadata) \<subseteq> dom (map_of ex_metadata)"
    using a by blast
  have "dom (filterMetadata \<lparr>Pattern = []\<rparr> ex_metadata) =
          {t. \<exists>links. map_of ex_metadata t = Some links \<and> links \<noteq> []}"
    using c by simp
  also have "\<dots> = {''/a.html'', ''/b.html''}"
    by (auto simp: ex_metadata_def split: if_splits)
  finally have 5: "dom (filterMetadata \<lparr>Pattern = []\<rparr> ex_metadata) = {''/a.html'', ''/b.html''}" .
  from d 1 2 3 4 5 show ?thesis by blast
qed

text \<open>
  C7. The filter is idempotent: filtering the result of a filter again with the same pattern,
  whatever the order in which the second run visits the result, gives the same map.
\<close>

theorem filterMetadata_idempotent:
  assumes "distinct (map fst metadata)"
    and "distinct (map fst filtered)"
    and "map_of filtered = filterMetadata linkQuery metadata"
  shows "filterMetadata linkQuery filtered = filterMetadata linkQuery metadata"
proof
  fix test
  show "filterMetadata linkQuery filtered test = filterMetadata linkQuery metadata test"
    using assms(3)
    by (simp add: filterMetadata_eq [OF assms(2)] filterMetadata_eq [OF assms(1)]
          split: option.splits)
qed


theorem filterMetadata_idempotent_witness:
  "distinct (map fst ex_metadata)
   \<and> distinct (map fst (take 1 ex_metadata))
   \<and> map_of (take 1 ex_metadata) = filterMetadata \<lparr>Pattern = ''bug''\<rparr> ex_metadata
   \<and> filterMetadata \<lparr>Pattern = ''bug''\<rparr> (take 1 ex_metadata) =
       filterMetadata \<lparr>Pattern = ''bug''\<rparr> ex_metadata"
proof -
  have d1: "distinct (map fst ex_metadata)" by (simp add: ex_metadata_def)
  have d2: "distinct (map fst (take 1 ex_metadata))" by (simp add: ex_metadata_def)
  have m: "map_of (take 1 ex_metadata) = filterMetadata \<lparr>Pattern = ''bug''\<rparr> ex_metadata"
    by (rule ext) (simp add: ex_metadata_def ex_link_def filterMetadata_def)
  from filterMetadata_idempotent [OF d1 d2 m] d1 d2 m show ?thesis by simp
qed

subsection \<open>The filter writes only to the map it makes\<close>

lemma linksLoop_st_eq:
  "linksLoop_st pattern res test links todo st =
     (if hasMatch pattern todo then store_assign res test links st else st)"
  by (induction todo) (auto simp: hasMatch_def Contains_sublist)

lemma store_assign_length: "length (store_assign res test links st) = length st"
  by (simp add: store_assign_def)

lemma store_assign_other: "a \<noteq> res \<Longrightarrow> store_assign res test links st ! a = st ! a"
  by (simp add: store_assign_def)

lemma store_assign_same:
  "res < length st \<Longrightarrow> store_assign res test links st ! res = (st ! res)(test \<mapsto> links)"
  by (simp add: store_assign_def)

lemma rangeLoop_st_length: "length (rangeLoop_st pattern metadata res visit st) = length st"
  by (induction visit arbitrary: st)
     (simp_all add: linksLoop_st_eq store_assign_length split: option.splits)

lemma rangeLoop_st_other:
  "a \<noteq> res \<Longrightarrow> rangeLoop_st pattern metadata res visit st ! a = st ! a"
  by (induction visit arbitrary: st)
     (simp_all add: linksLoop_st_eq store_assign_other split: option.splits)

lemma rangeLoop_st_res:
  "metadata \<noteq> res \<Longrightarrow> res < length st \<Longrightarrow>
   (rangeLoop_st pattern metadata res visit st ! res) test = Some links \<Longrightarrow>
   (st ! res) test = Some links \<or> (st ! metadata) test = Some links"
proof (induction visit arbitrary: st)
  case Nil
  then show ?case by simp
next
  case (Cons k visit)
  show ?case
  proof (cases "(st ! metadata) k")
    case None
    with Cons show ?thesis by simp
  next
    case (Some ls)
    let ?st = "linksLoop_st pattern res k ls ls st"
    have len: "res < length ?st"
      using Cons.prems(2) by (simp add: linksLoop_st_eq store_assign_length)
    have md: "?st ! metadata = st ! metadata"
      using Cons.prems(1) by (simp add: linksLoop_st_eq store_assign_other)
    from Cons.prems(3) Some
    have "(rangeLoop_st pattern metadata res visit ?st ! res) test = Some links" by simp
    from Cons.IH [OF Cons.prems(1) len this] md
    have "(?st ! res) test = Some links \<or> (st ! metadata) test = Some links" by simp
    then show ?thesis
      using Some Cons.prems(2)
      by (auto simp: linksLoop_st_eq store_assign_same split: if_splits)
  qed
qed

text \<open>The store version computes the map that the value version computes.\<close>

lemma rangeLoop_st_rangeLoop:
  "metadata \<noteq> res \<Longrightarrow> res < length st \<Longrightarrow> set visit \<subseteq> dom (st ! metadata) \<Longrightarrow>
   rangeLoop_st pattern metadata res visit st ! res =
     rangeLoop pattern (map (\<lambda>k. (k, the ((st ! metadata) k))) visit) (st ! res)"
proof (induction visit arbitrary: st)
  case Nil
  then show ?case by simp
next
  case (Cons k visit)
  from Cons.prems(3) obtain ls where ls: "(st ! metadata) k = Some ls" by auto
  let ?st = "linksLoop_st pattern res k ls ls st"
  have len: "res < length ?st"
    using Cons.prems(2) by (simp add: linksLoop_st_eq store_assign_length)
  have md: "?st ! metadata = st ! metadata"
    using Cons.prems(1) by (simp add: linksLoop_st_eq store_assign_other)
  have sub: "set visit \<subseteq> dom (?st ! metadata)" using Cons.prems(3) md by simp
  have r: "?st ! res = linksLoop pattern k ls ls (st ! res)"
    using Cons.prems(2) by (simp add: linksLoop_st_eq linksLoop_eq store_assign_same)
  from Cons.IH [OF Cons.prems(1) len sub] ls md r show ?case by simp
qed

lemma filterMetadata_st_result:
  assumes "metadata < length st" and "set visit \<subseteq> dom (st ! metadata)"
    and "filterMetadata_st linkQuery metadata visit st = (res, st')"
  shows "st' ! res =
     filterMetadata linkQuery (map (\<lambda>k. (k, the ((st ! metadata) k))) visit)"
proof -
  let ?st1 = "st @ [Map.empty]"
  from assms(3) have res: "res = length st"
    and st': "st' = rangeLoop_st (Pattern linkQuery) metadata (length st) visit ?st1"
    by (auto simp: filterMetadata_st_def make_MetadataResults_def)
  have 1: "metadata \<noteq> length st" using assms(1) by simp
  have 2: "length st < length ?st1" by simp
  have 3: "set visit \<subseteq> dom (?st1 ! metadata)" using assms(1,2) by (simp add: nth_append)
  from rangeLoop_st_rangeLoop [OF 1 2 3, of "Pattern linkQuery"] assms(1)
  show ?thesis by (simp add: st' res filterMetadata_def nth_append)
qed

text \<open>
  C8. Filtering never mutates its input. Run on a store, the filter returns the address of a
  map that did not exist before; every map that existed, the input among them, has the same
  keys and the same link sequences afterwards; and every entry of the result has the link
  sequence the input has for that test, so the links are in the input's order.
\<close>

theorem filterMetadata_st_frame:
  assumes "metadata < length st"
    and "filterMetadata_st linkQuery metadata visit st = (res, st')"
  shows "res = length st \<and> res \<noteq> metadata
       \<and> length st' = Suc (length st)
       \<and> take (length st) st' = st
       \<and> st' ! metadata = st ! metadata
       \<and> (\<forall>test links. (st' ! res) test = Some links \<longrightarrow> (st ! metadata) test = Some links)"
proof -
  let ?st1 = "st @ [Map.empty]"
  from assms(2) have res: "res = length st"
    and st': "st' = rangeLoop_st (Pattern linkQuery) metadata (length st) visit ?st1"
    by (auto simp: filterMetadata_st_def make_MetadataResults_def)
  from assms(1) res have ne: "metadata \<noteq> res" by simp
  have len: "length st' = Suc (length st)" by (simp add: st' rangeLoop_st_length)
  have old: "st' ! a = st ! a" if "a < length st" for a
    using that by (simp add: st' rangeLoop_st_other nth_append)
  have tk: "take (length st) st' = st"
    by (rule nth_equalityI) (simp_all add: len old)
  have kept: "(st ! metadata) test = Some links" if "(st' ! res) test = Some links" for test links
  proof -
    have "res < length ?st1" by (simp add: res)
    from rangeLoop_st_res [OF ne this] that [unfolded st' res] res
    have "(?st1 ! res) test = Some links \<or> (?st1 ! metadata) test = Some links"
      by simp
    with assms(1) res show ?thesis by (simp add: nth_append)
  qed
  from res ne len tk old [OF assms(1)] kept show ?thesis by blast
qed


theorem filterMetadata_st_frame_witness:
  "(0::nat) < length [map_of ex_metadata]
   \<and> fst (filterMetadata_st \<lparr>Pattern = ''bug''\<rparr> 0 [''/c.html'', ''/a.html'', ''/b.html'']
            [map_of ex_metadata]) = 1
   \<and> length (snd (filterMetadata_st \<lparr>Pattern = ''bug''\<rparr> 0 [''/c.html'', ''/a.html'', ''/b.html'']
            [map_of ex_metadata])) = 2
   \<and> snd (filterMetadata_st \<lparr>Pattern = ''bug''\<rparr> 0 [''/c.html'', ''/a.html'', ''/b.html'']
            [map_of ex_metadata]) ! 0 = map_of ex_metadata"
proof -
  let ?run = "filterMetadata_st \<lparr>Pattern = ''bug''\<rparr> 0 [''/c.html'', ''/a.html'', ''/b.html'']
                [map_of ex_metadata]"
  have h: "(0::nat) < length [map_of ex_metadata]" by simp
  have e: "?run = (fst ?run, snd ?run)" by simp
  from filterMetadata_st_frame [OF h e] h show ?thesis by simp
qed

section \<open>Properties of the cache key\<close>

text \<open>
  C2. The cache key is a function of the method, the URL and the body. For a GET request
  the key is the request URL string, the request is left as it was and nothing is read or
  closed. For any other method whose body reads without error the key is the URL string,
  then \<open>#\<close>, then the body bytes; the request is returned with a fresh body from which a
  later \<^verbatim>\<open>ReadAll\<close> gets the same bytes again, without error.
\<close>

theorem cacheKey_derivation:
  "(Method r = ''GET'' \<longrightarrow>
      cacheKey r = (Inr (URL_String (RequestURL r)), r, []))
   \<and> (Method r \<noteq> ''GET'' \<and> read_err (Body r) = None \<longrightarrow>
        fst (cacheKey r) = Inr (URL_String (RequestURL r) @ ''#'' @ pending (Body r))
      \<and> snd (ReadAll (Body (fst (snd (cacheKey r))))) = (pending (Body r), None)
      \<and> snd (Close (fst (ReadAll (Body (fst (snd (cacheKey r))))))) = None
      \<and> fst (snd (cacheKey r)) = r\<lparr>Body := NopCloser_NewBuffer (pending (Body r))\<rparr>)
   \<and> (Method r = Method r2 \<and> URL_String (RequestURL r) = URL_String (RequestURL r2)
        \<and> pending (Body r) = pending (Body r2) \<and> read_err (Body r) = read_err (Body r2) \<longrightarrow>
        fst (cacheKey r) = fst (cacheKey r2))"
  by (auto simp: cacheKey_def URLAsCacheKey_def ReadAll_def Close_def NopCloser_NewBuffer_def
        Let_def split: option.splits)

theorem cacheKey_derivation_witness:
  "cacheKey (ex_request ''GET'' [] ''ignored'' (Some ''reset'')) =
     (Inr ''/api/metadata?product=chrome'', ex_request ''GET'' [] ''ignored'' (Some ''reset''), [])
   \<and> Method (ex_request ''POST'' [] ''{}'' None) \<noteq> ''GET''
   \<and> read_err (Body (ex_request ''POST'' [] ''{}'' None)) = None
   \<and> fst (cacheKey (ex_request ''POST'' [] ''{}'' None)) = Inr ''/api/metadata?product=chrome#{}''
   \<and> snd (ReadAll (Body (fst (snd (cacheKey (ex_request ''POST'' [] ''{}'' None)))))) = (''{}'', None)
   \<and> ex_request ''POST'' [] ''{}'' None \<noteq> ex_request ''POST'' ''text/plain'' ''{}'' None
   \<and> fst (cacheKey (ex_request ''POST'' [] ''{}'' None)) =
       fst (cacheKey (ex_request ''POST'' ''text/plain'' ''{}'' None))"
proof -
  let ?G = "ex_request ''GET'' [] ''ignored'' (Some ''reset'')"
  let ?P = "ex_request ''POST'' [] ''{}'' None"
  let ?Q = "ex_request ''POST'' ''text/plain'' ''{}'' None"
  have g: "Method ?G = ''GET''"
    by (simp add: ex_request_def)
  have p1: "Method ?P \<noteq> ''GET''" and p2: "read_err (Body ?P) = None"
    by (simp_all add: ex_request_def)
  have "cacheKey ?G = (Inr (URL_String (RequestURL ?G)), ?G, [])"
    by (rule cacheKey_derivation [of ?G ?G, THEN conjunct1, THEN mp, OF g])
  then have 1: "cacheKey ?G = (Inr ''/api/metadata?product=chrome'', ?G, [])"
    by (simp add: ex_request_def)
  note P = cacheKey_derivation [of ?P ?Q, THEN conjunct2, THEN conjunct1, THEN mp,
      OF conjI [OF p1 p2]]
  have "fst (cacheKey ?P) = Inr (URL_String (RequestURL ?P) @ ''#'' @ pending (Body ?P))"
    by (rule P [THEN conjunct1])
  then have 2: "fst (cacheKey ?P) = Inr ''/api/metadata?product=chrome#{}''"
    by (simp add: ex_request_def)
  have "snd (ReadAll (Body (fst (snd (cacheKey ?P))))) = (pending (Body ?P), None)"
    by (rule P [THEN conjunct2, THEN conjunct1])
  then have 3: "snd (ReadAll (Body (fst (snd (cacheKey ?P))))) = (''{}'', None)"
    by (simp add: ex_request_def)
  have ne: "?P \<noteq> ?Q"
  proof
    assume "?P = ?Q"
    then have "Header ?P ''Content-Type'' = Header ?Q ''Content-Type''" by simp
    then show False by (simp add: ex_request_def)
  qed
  have same: "Method ?P = Method ?Q \<and> URL_String (RequestURL ?P) = URL_String (RequestURL ?Q)
        \<and> pending (Body ?P) = pending (Body ?Q) \<and> read_err (Body ?P) = read_err (Body ?Q)"
    by (simp add: ex_request_def)
  have 4: "fst (cacheKey ?P) = fst (cacheKey ?Q)"
    by (rule cacheKey_derivation [of ?P ?Q, THEN conjunct2, THEN conjunct2, THEN mp, OF same])
  show ?thesis by (intro conjI) (rule 1 p1 p2 2 3 ne 4)+
qed

text \<open>
  C6. If reading the body fails while the key of a request other than GET is derived, the
  derivation ends in a panic: the failure is logged, the panic carries the same message, no
  key is returned, and the body is neither replaced nor closed.
\<close>

theorem cacheKey_read_failure_panics:
  assumes "Method r \<noteq> ''GET''" and "read_err (Body r) = Some err"
  shows "cacheKey r =
           (Inl (''Failed to read non-GET request body for generating cache key: '' @ err),
            r\<lparr>Body := (Body r)\<lparr>pending := []\<rparr>\<rparr>,
            [Logger_Errorf (''Failed to read non-GET request body for generating cache key: '' @ err)])
       \<and> (\<forall>key. fst (cacheKey r) \<noteq> Inr key)
       \<and> Body_Close \<notin> set (snd (snd (cacheKey r)))"
  using assms by (simp add: cacheKey_def ReadAll_def Let_def)

theorem cacheKey_read_failure_panics_witness:
  "Method (ex_request ''POST'' [] ''{'' (Some ''unexpected EOF'')) \<noteq> ''GET''
   \<and> read_err (Body (ex_request ''POST'' [] ''{'' (Some ''unexpected EOF''))) = Some ''unexpected EOF''
   \<and> fst (cacheKey (ex_request ''POST'' [] ''{'' (Some ''unexpected EOF''))) =
       Inl ''Failed to read non-GET request body for generating cache key: unexpected EOF''
   \<and> snd (snd (cacheKey (ex_request ''POST'' [] ''{'' (Some ''unexpected EOF'')))) =
       [Logger_Errorf ''Failed to read non-GET request body for generating cache key: unexpected EOF'']"
proof -
  have m: "Method (ex_request ''POST'' [] ''{'' (Some ''unexpected EOF'')) \<noteq> ''GET''"
    by (simp add: ex_request_def)
  have e: "read_err (Body (ex_request ''POST'' [] ''{'' (Some ''unexpected EOF''))) = Some ''unexpected EOF''"
    by (simp add: ex_request_def)
  from cacheKey_read_failure_panics [OF m e] m e show ?thesis by simp
qed


section \<open>Properties of the triage handler\<close>

lemmas passes_defs = passes_method_def passes_content_type_def passes_decode_def
  passes_session_def passes_token_check_def passes_membership_def

lemmas triage_handler_defs = apiMetadataTriageHandler_def ReadAll_def Close_def Let_def
  getWPTFYIGithubBot_def

lemma http_Error_new:
  "http_Error newResponseWriter msg code = \<lparr>rw_status = Some code, rw_body = msg @ [CHR 0x0A]\<rparr>"
  by (simp add: http_Error_def rw_append_def WriteHeader_def newResponseWriter_def)

lemma WriteHeader_new:
  "WriteHeader newResponseWriter code = \<lparr>rw_status = Some code, rw_body = []\<rparr>"
  by (simp add: WriteHeader_def newResponseWriter_def)

lemma rw_status_http_Error_new [simp]:
  "rw_status (http_Error newResponseWriter msg code) = Some code"
  by (simp add: http_Error_new)

text \<open>
  The steps of authorization as the handler takes them, in terms of what its collaborators
  return to it: a method other than PATCH is answered 400; a content type other than
  \<^verbatim>\<open>application/json\<close> 400; a body that cannot be read or closed 500; a body that does not
  decode 400 with the parse error in the message; a missing user or credential 400 "not
  logged in"; a check that returns an error 500, one that returns no error and a status
  other than 200 400. A submission is made only by a request that passed every step.
\<close>

lemma triage_authorization_steps:
  fixes env :: "('a, 'cl) triage_env" and r :: Request
  defines "w \<equiv> fst (apiMetadataTriageHandler env newResponseWriter r)"
    and "calls \<equiv> snd (apiMetadataTriageHandler env newResponseWriter r)"
  shows
    "(\<not> passes_method r \<longrightarrow> rw_status w = Some StatusBadRequest \<and> calls = [])
   \<and> (passes_method r \<and> \<not> passes_content_type r \<longrightarrow>
        rw_status w = Some StatusBadRequest \<and> calls = [])
   \<and> (passes_content_type r \<and> (read_err (Body r) \<noteq> None \<or> close_err (Body r) \<noteq> None) \<longrightarrow>
        rw_status w = Some StatusInternalServerError \<and> calls = [])
   \<and> (passes_content_type r \<and> read_err (Body r) = None \<and> close_err (Body r) = None \<and>
        Unmarshal_MetadataResults env (pending (Body r)) = Inl perr \<longrightarrow>
        w = http_Error newResponseWriter (''Failed to parse JSON: '' @ perr) StatusBadRequest \<and>
        calls = [])
   \<and> (passes_decode env r metadata \<and>
        (fst (GetUserFromCookie env r) = None \<or> snd (GetUserFromCookie env r) = None) \<longrightarrow>
        w = http_Error newResponseWriter ''User is not logged in'' StatusBadRequest \<and>
        calls = [Call_GetUserFromCookie])
   \<and> (passes_session env r metadata user token \<and>
        GetSecret env ''github-oauth-client-id'' = Inr clientID \<and>
        Authorizations_Check env token clientID token = Inl err \<longrightarrow>
        rw_status w = Some StatusInternalServerError \<and>
        calls = take 3 (authorization_calls token clientID))
   \<and> (passes_session env r metadata user token \<and>
        GetSecret env ''github-oauth-client-id'' = Inr clientID \<and>
        Authorizations_Check env token clientID token = Inr code \<and> code \<noteq> StatusOK \<longrightarrow>
        w = http_Error newResponseWriter ''User token invalid; please log in again. ''
              StatusBadRequest \<and>
        calls = take 3 (authorization_calls token clientID))
   \<and> (passes_token_check env r metadata user token clientID \<and>
        Organizations_GetOrgMembership env token [] ''web-platform-tests'' = Inl err \<longrightarrow>
        rw_status w = Some StatusInternalServerError \<and>
        calls = authorization_calls token clientID)
   \<and> (passes_token_check env r metadata user token clientID \<and>
        Organizations_GetOrgMembership env token [] ''web-platform-tests'' = Inr code \<and>
        code \<noteq> StatusOK \<longrightarrow>
        w = http_Error newResponseWriter ''User is not a part of web-platform-tests''
              StatusBadRequest \<and>
        calls = authorization_calls token clientID)
   \<and> ((\<exists>c \<in> set calls. is_submission c) \<longrightarrow>
        (\<exists>metadata user token clientID. passes_membership env r metadata user token clientID))"
proof -
  have 1: "\<not> passes_method r \<longrightarrow> rw_status w = Some StatusBadRequest \<and> calls = []"
    by (simp add: w_def calls_def passes_defs triage_handler_defs)
  have 2: "passes_method r \<and> \<not> passes_content_type r \<longrightarrow>
        rw_status w = Some StatusBadRequest \<and> calls = []"
    by (simp add: w_def calls_def passes_defs triage_handler_defs)
  have 3: "passes_content_type r \<and> (read_err (Body r) \<noteq> None \<or> close_err (Body r) \<noteq> None) \<longrightarrow>
        rw_status w = Some StatusInternalServerError \<and> calls = []"
    by (auto simp: w_def calls_def passes_defs triage_handler_defs split: option.splits)
  have 4: "passes_content_type r \<and> read_err (Body r) = None \<and> close_err (Body r) = None \<and>
        Unmarshal_MetadataResults env (pending (Body r)) = Inl perr \<longrightarrow>
        w = http_Error newResponseWriter (''Failed to parse JSON: '' @ perr) StatusBadRequest \<and>
        calls = []"
    by (simp add: w_def calls_def passes_defs triage_handler_defs)
  have 5: "passes_decode env r metadata \<and>
        (fst (GetUserFromCookie env r) = None \<or> snd (GetUserFromCookie env r) = None) \<longrightarrow>
        w = http_Error newResponseWriter ''User is not logged in'' StatusBadRequest \<and>
        calls = [Call_GetUserFromCookie]"
    by (cases "GetUserFromCookie env r")
       (auto simp: w_def calls_def passes_defs triage_handler_defs split: option.splits)
  have 6: "passes_session env r metadata user token \<and>
        GetSecret env ''github-oauth-client-id'' = Inr clientID \<and>
        Authorizations_Check env token clientID token = Inl err \<longrightarrow>
        rw_status w = Some StatusInternalServerError \<and>
        calls = take 3 (authorization_calls token clientID)"
    by (simp add: w_def calls_def passes_defs triage_handler_defs authorization_calls_def)
  have 7: "passes_session env r metadata user token \<and>
        GetSecret env ''github-oauth-client-id'' = Inr clientID \<and>
        Authorizations_Check env token clientID token = Inr code \<and> code \<noteq> StatusOK \<longrightarrow>
        w = http_Error newResponseWriter ''User token invalid; please log in again. ''
              StatusBadRequest \<and>
        calls = take 3 (authorization_calls token clientID)"
    by (simp add: w_def calls_def passes_defs triage_handler_defs authorization_calls_def)
  have 8: "passes_token_check env r metadata user token clientID \<and>
        Organizations_GetOrgMembership env token [] ''web-platform-tests'' = Inl err \<longrightarrow>
        rw_status w = Some StatusInternalServerError \<and>
        calls = authorization_calls token clientID"
    by (simp add: w_def calls_def passes_defs triage_handler_defs authorization_calls_def)
  have 9: "passes_token_check env r metadata user token clientID \<and>
        Organizations_GetOrgMembership env token [] ''web-platform-tests'' = Inr code \<and>
        code \<noteq> StatusOK \<longrightarrow>
        w = http_Error newResponseWriter ''User is not a part of web-platform-tests''
              StatusBadRequest \<and>
        calls = authorization_calls token clientID"
    by (simp add: w_def calls_def passes_defs triage_handler_defs authorization_calls_def)
  have 10: "(\<exists>c \<in> set calls. is_submission c) \<longrightarrow>
        (\<exists>metadata user token clientID. passes_membership env r metadata user token clientID)"
    by (auto simp: calls_def passes_defs triage_handler_defs
          split: if_splits option.splits sum.splits prod.splits)
  from 1 2 3 4 5 6 7 8 9 10 show ?thesis by blast
qed

text \<open>
  C1. The claim: a token check or membership check that the remote hosting API answers
  with a status other than 200 ends the request with 400 ("token invalid", "not a member").
  The handler tests the error of the call before it looks at the status, and the client
  reports every status outside 200 to 299 as an error. So a request that passed the earlier
  steps and whose check is answered upstream with such a status (401, 404, ...) is answered
  500 with the message of the transport-failure branch, not 400; the request is still not
  authorized. The 400 answers are given only for an upstream status from 201 to 299.
\<close>

theorem triage_upstream_rejection_answered_500:
  fixes env :: "('a, 'cl) triage_env" and r :: Request
  defines "w \<equiv> fst (apiMetadataTriageHandler env newResponseWriter r)"
    and "calls \<equiv> snd (apiMetadataTriageHandler env newResponseWriter r)"
    and "token_invalid \<equiv>
           http_Error newResponseWriter ''User token invalid; please log in again. ''
             StatusBadRequest"
    and "not_member \<equiv>
           http_Error newResponseWriter ''User is not a part of web-platform-tests''
             StatusBadRequest"
  shows
    "(passes_session env r metadata user token \<and>
      GetSecret env ''github-oauth-client-id'' = Inr clientID \<and>
      go_github_returns (Upstream_Status code)
        (Authorizations_Check env token clientID token) \<and>
      (code < 200 \<or> 299 < code) \<longrightarrow>
        rw_status w = Some StatusInternalServerError \<and>
        (\<exists>err. w = http_Error newResponseWriter (''Fail to validate user token '' @ err)
                     StatusInternalServerError) \<and>
        w \<noteq> token_invalid \<and>
        \<not> (\<exists>c \<in> set calls. is_submission c))
   \<and> (passes_token_check env r metadata user token clientID \<and>
      go_github_returns (Upstream_Status code)
        (Organizations_GetOrgMembership env token [] ''web-platform-tests'') \<and>
      (code < 200 \<or> 299 < code) \<longrightarrow>
        rw_status w = Some StatusInternalServerError \<and>
        (\<exists>err. w = http_Error newResponseWriter
                     (''Fail to validate web-platform-tests membership: '' @ err)
                     StatusInternalServerError) \<and>
        w \<noteq> not_member \<and>
        \<not> (\<exists>c \<in> set calls. is_submission c))
   \<and> (passes_session env r metadata user token \<and>
      GetSecret env ''github-oauth-client-id'' = Inr clientID \<and>
      go_github_returns (Upstream_Status code)
        (Authorizations_Check env token clientID token) \<and>
      w = token_invalid \<longrightarrow> 200 < code \<and> code \<le> 299)
   \<and> (passes_token_check env r metadata user token clientID \<and>
      go_github_returns (Upstream_Status code)
        (Organizations_GetOrgMembership env token [] ''web-platform-tests'') \<and>
      w = not_member \<longrightarrow> 200 < code \<and> code \<le> 299)"
proof -
  have 1: "passes_session env r metadata user token \<and>
      GetSecret env ''github-oauth-client-id'' = Inr clientID \<and>
      go_github_returns (Upstream_Status code)
        (Authorizations_Check env token clientID token) \<and>
      (code < 200 \<or> 299 < code) \<longrightarrow>
        rw_status w = Some StatusInternalServerError \<and>
        (\<exists>err. w = http_Error newResponseWriter (''Fail to validate user token '' @ err)
                     StatusInternalServerError) \<and>
        w \<noteq> token_invalid \<and>
        \<not> (\<exists>c \<in> set calls. is_submission c)"
    by (cases "Authorizations_Check env token clientID token")
       (auto simp: w_def calls_def token_invalid_def passes_defs triage_handler_defs
          http_Error_new)
  have 2: "passes_token_check env r metadata user token clientID \<and>
      go_github_returns (Upstream_Status code)
        (Organizations_GetOrgMembership env token [] ''web-platform-tests'') \<and>
      (code < 200 \<or> 299 < code) \<longrightarrow>
        rw_status w = Some StatusInternalServerError \<and>
        (\<exists>err. w = http_Error newResponseWriter
                     (''Fail to validate web-platform-tests membership: '' @ err)
                     StatusInternalServerError) \<and>
        w \<noteq> not_member \<and>
        \<not> (\<exists>c \<in> set calls. is_submission c)"
    by (cases "Organizations_GetOrgMembership env token [] ''web-platform-tests''")
       (auto simp: w_def calls_def not_member_def passes_defs triage_handler_defs
          http_Error_new)
  have 3: "passes_session env r metadata user token \<and>
      GetSecret env ''github-oauth-client-id'' = Inr clientID \<and>
      go_github_returns (Upstream_Status code)
        (Authorizations_Check env token clientID token) \<and>
      w = token_invalid \<longrightarrow> 200 < code \<and> code \<le> 299"
    by (cases "Authorizations_Check env token clientID token")
       (auto simp: w_def token_invalid_def passes_defs triage_handler_defs http_Error_new
          WriteHeader_new split: if_splits sum.splits option.splits)
  have 4: "passes_token_check env r metadata user token clientID \<and>
      go_github_returns (Upstream_Status code)
        (Organizations_GetOrgMembership env token [] ''web-platform-tests'') \<and>
      w = not_member \<longrightarrow> 200 < code \<and> code \<le> 299"
    by (cases "Organizations_GetOrgMembership env token [] ''web-platform-tests''")
       (auto simp: w_def not_member_def passes_defs triage_handler_defs http_Error_new
          WriteHeader_new split: if_splits sum.splits option.splits)
  from 1 2 3 4 show ?thesis by blast
qed

theorem triage_upstream_rejection_answered_500_witness:
  "passes_session
     (ex_triage_env (Inr Map.empty) ex_session (Inr ''id'') (Inl ''404 Not Found'') (Inr 200)
        (Inr ()) None)
     ex_patch Map.empty ex_user ''tok''
   \<and> GetSecret
        (ex_triage_env (Inr Map.empty) ex_session (Inr ''id'') (Inl ''404 Not Found'') (Inr 200)
           (Inr ()) None)
        ''github-oauth-client-id'' = Inr ''id''
   \<and> go_github_returns (Upstream_Status 404)
        (Authorizations_Check
           (ex_triage_env (Inr Map.empty) ex_session (Inr ''id'') (Inl ''404 Not Found'')
              (Inr 200) (Inr ()) None)
           ''tok'' ''id'' ''tok'')
   \<and> \<not> go_github_returns (Upstream_Status 404) (Inr 404)
   \<and> rw_status (fst (apiMetadataTriageHandler
        (ex_triage_env (Inr Map.empty) ex_session (Inr ''id'') (Inl ''404 Not Found'') (Inr 200)
           (Inr ()) None)
        newResponseWriter ex_patch)) = Some StatusInternalServerError
   \<and> fst (apiMetadataTriageHandler
        (ex_triage_env (Inr Map.empty) ex_session (Inr ''id'') (Inl ''404 Not Found'') (Inr 200)
           (Inr ()) None)
        newResponseWriter ex_patch) \<noteq>
       http_Error newResponseWriter ''User token invalid; please log in again. ''
         StatusBadRequest
   \<and> passes_token_check
        (ex_triage_env (Inr Map.empty) ex_session (Inr ''id'') (Inr 200) (Inl ''404 Not Found'')
           (Inr ()) None)
        ex_patch Map.empty ex_user ''tok'' ''id''
   \<and> rw_status (fst (apiMetadataTriageHandler
        (ex_triage_env (Inr Map.empty) ex_session (Inr ''id'') (Inr 200) (Inl ''404 Not Found'')
           (Inr ()) None)
        newResponseWriter ex_patch)) = Some StatusInternalServerError
   \<and> fst (apiMetadataTriageHandler
        (ex_triage_env (Inr Map.empty) ex_session (Inr ''id'') (Inr 200) (Inl ''404 Not Found'')
           (Inr ()) None)
        newResponseWriter ex_patch) \<noteq>
       http_Error newResponseWriter ''User is not a part of web-platform-tests''
         StatusBadRequest"
proof -
  let ?revoked = "ex_triage_env (Inr Map.empty) ex_session (Inr ''id'') (Inl ''404 Not Found'')
      (Inr 200) (Inr ()) None"
  let ?outsider = "ex_triage_env (Inr Map.empty) ex_session (Inr ''id'') (Inr 200)
      (Inl ''404 Not Found'') (Inr ()) None"
  note ex_defs = ex_request_def ex_patch_def ex_triage_env_def ex_session_def Header_Get_def
  have a1: "passes_session ?revoked ex_patch Map.empty ex_user ''tok''"
    by (simp add: passes_defs ex_defs)
  have a2: "GetSecret ?revoked ''github-oauth-client-id'' = Inr ''id''"
    by (simp add: ex_defs)
  have a3: "go_github_returns (Upstream_Status 404)
      (Authorizations_Check ?revoked ''tok'' ''id'' ''tok'')"
    by (simp add: ex_defs)
  have a4: "(404::nat) < 200 \<or> 299 < (404::nat)" by simp
  have n: "\<not> go_github_returns (Upstream_Status 404) (Inr 404)" by simp
  note A = triage_upstream_rejection_answered_500 [where env = ?revoked and r = ex_patch
      and metadata = Map.empty and user = ex_user and token = "''tok''" and clientID = "''id''"
      and code = 404, THEN conjunct1, THEN mp, OF conjI [OF a1 conjI [OF a2 conjI [OF a3 a4]]]]
  have a': "rw_status (fst (apiMetadataTriageHandler ?revoked newResponseWriter ex_patch)) =
      Some StatusInternalServerError"
    by (rule A [THEN conjunct1])
  have a'': "fst (apiMetadataTriageHandler ?revoked newResponseWriter ex_patch) \<noteq>
       http_Error newResponseWriter ''User token invalid; please log in again. ''
         StatusBadRequest"
    by (rule A [THEN conjunct2, THEN conjunct2, THEN conjunct1])
  have b1: "passes_token_check ?outsider ex_patch Map.empty ex_user ''tok'' ''id''"
    by (simp add: passes_defs ex_defs)
  have b2: "go_github_returns (Upstream_Status 404)
      (Organizations_GetOrgMembership ?outsider ''tok'' [] ''web-platform-tests'')"
    by (simp add: ex_defs)
  note B = triage_upstream_rejection_answered_500 [where env = ?outsider and r = ex_patch
      and metadata = Map.empty and user = ex_user and token = "''tok''" and clientID = "''id''"
      and code = 404, THEN conjunct2, THEN conjunct1, THEN mp,
      OF conjI [OF b1 conjI [OF b2 a4]]]
  have b': "rw_status (fst (apiMetadataTriageHandler ?outsider newResponseWriter ex_patch)) =
      Some StatusInternalServerError"
    by (rule B [THEN conjunct1])
  have b'': "fst (apiMetadataTriageHandler ?outsider newResponseWriter ex_patch) \<noteq>
       http_Error newResponseWriter ''User is not a part of web-platform-tests''
         StatusBadRequest"
    by (rule B [THEN conjunct2, THEN conjunct2, THEN conjunct1])
  show ?thesis by (intro conjI) (rule a1 a2 a3 n a' a'' b1 b' b'')+
qed

text \<open>
  C5. On a triage request whose body does not decode, the handler calls no collaborator at
  all, so none of the remote operations (token check, membership check, submission). Once
  the body has been read and closed the answer is 400, and for a request that got as far as
  decoding (PATCH with the JSON content type) the message is the parse failure.
\<close>

theorem triage_malformed_json:
  fixes env :: "('a, 'cl) triage_env" and r :: Request
  defines "w \<equiv> fst (apiMetadataTriageHandler env newResponseWriter r)"
    and "calls \<equiv> snd (apiMetadataTriageHandler env newResponseWriter r)"
  assumes "Unmarshal_MetadataResults env (pending (Body r)) = Inl perr"
  shows "calls = []
       \<and> \<not> (\<exists>c \<in> set calls. remote_call c)
       \<and> (read_err (Body r) = None \<and> close_err (Body r) = None \<longrightarrow>
            rw_status w = Some StatusBadRequest)
       \<and> (passes_content_type r \<and> read_err (Body r) = None \<and> close_err (Body r) = None \<longrightarrow>
            w = http_Error newResponseWriter (''Failed to parse JSON: '' @ perr) StatusBadRequest \<and>
            rw_body w = ''Failed to parse JSON: '' @ perr @ [CHR 0x0A])"
proof -
  have 1: "calls = []"
    using assms(3)
    by (simp add: calls_def triage_handler_defs split: option.splits)
  then have 2: "\<not> (\<exists>c \<in> set calls. remote_call c)"
    by simp
  have 3: "read_err (Body r) = None \<and> close_err (Body r) = None \<longrightarrow>
            rw_status w = Some StatusBadRequest"
    using assms(3) by (simp add: w_def triage_handler_defs)
  have 4: "passes_content_type r \<and> read_err (Body r) = None \<and> close_err (Body r) = None \<longrightarrow>
            w = http_Error newResponseWriter (''Failed to parse JSON: '' @ perr) StatusBadRequest \<and>
            rw_body w = ''Failed to parse JSON: '' @ perr @ [CHR 0x0A]"
    using assms(3) by (simp add: w_def passes_defs triage_handler_defs http_Error_new)
  from 1 2 3 4 show ?thesis by blast
qed

theorem triage_malformed_json_witness:
  "read_err (Body ex_patch) = None
   \<and> close_err (Body ex_patch) = None
   \<and> Unmarshal_MetadataResults
        (ex_triage_env (Inl ''unexpected end of JSON input'') ex_session (Inr ''id'')
           (Inr 200) (Inr 200) (Inr ()) None)
        (pending (Body ex_patch)) = Inl ''unexpected end of JSON input''
   \<and> passes_content_type ex_patch
   \<and> rw_status (fst (apiMetadataTriageHandler
        (ex_triage_env (Inl ''unexpected end of JSON input'') ex_session (Inr ''id'')
           (Inr 200) (Inr 200) (Inr ()) None)
        newResponseWriter ex_patch)) = Some StatusBadRequest
   \<and> snd (apiMetadataTriageHandler
        (ex_triage_env (Inl ''unexpected end of JSON input'') ex_session (Inr ''id'')
           (Inr 200) (Inr 200) (Inr ()) None)
        newResponseWriter ex_patch) = []
   \<and> rw_body (fst (apiMetadataTriageHandler
        (ex_triage_env (Inl ''unexpected end of JSON input'') ex_session (Inr ''id'')
           (Inr 200) (Inr 200) (Inr ()) None)
        newResponseWriter ex_patch)) =
       ''Failed to parse JSON: unexpected end of JSON input'' @ [CHR 0x0A]"
proof -
  let ?bad = "ex_triage_env (Inl ''unexpected end of JSON input'') ex_session (Inr ''id'')
               (Inr 200) (Inr 200) (Inr ()) None"
  note ex_defs = ex_request_def ex_patch_def ex_triage_env_def ex_session_def Header_Get_def
  have 1: "read_err (Body ex_patch) = None" by (simp add: ex_defs)
  have 2: "close_err (Body ex_patch) = None" by (simp add: ex_defs)
  have 3: "Unmarshal_MetadataResults ?bad (pending (Body ex_patch)) =
      Inl ''unexpected end of JSON input''"
    by (simp add: ex_defs)
  have 4: "passes_content_type ex_patch" by (simp add: passes_defs ex_defs)
  note T = triage_malformed_json [OF 3]
  have 5: "rw_status (fst (apiMetadataTriageHandler ?bad newResponseWriter ex_patch)) =
      Some StatusBadRequest"
    by (rule T [THEN conjunct2, THEN conjunct2, THEN conjunct1, THEN mp, OF conjI [OF 1 2]])
  have 6: "snd (apiMetadataTriageHandler ?bad newResponseWriter ex_patch) = []"
    by (rule T [THEN conjunct1])
  have "rw_body (fst (apiMetadataTriageHandler ?bad newResponseWriter ex_patch)) =
      ''Failed to parse JSON: '' @ ''unexpected end of JSON input'' @ [CHR 0x0A]"
    by (rule T [THEN conjunct2, THEN conjunct2, THEN conjunct2, THEN mp,
          OF conjI [OF 4 conjI [OF 1 2]], THEN conjunct2])
  then have 7: "rw_body (fst (apiMetadataTriageHandler ?bad newResponseWriter ex_patch)) =
      ''Failed to parse JSON: unexpected end of JSON input'' @ [CHR 0x0A]"
    by simp
  show ?thesis by (intro conjI) (rule 1 2 3 4 5 6 7)+
qed

text \<open>
  C10. A request that passed the method, content type, decoding and session steps looks up
  the secret \<^verbatim>\<open>github-oauth-client-id\<close> next, before any remote call. If the lookup fails the
  answer is 500, the message begins with
  \<^verbatim>\<open>Failed to get github-oauth-client-id secret: \<close>, and no remote call is made.
\<close>

theorem triage_secret_lookup:
  fixes env :: "('a, 'cl) triage_env" and r :: Request
  defines "w \<equiv> fst (apiMetadataTriageHandler env newResponseWriter r)"
    and "calls \<equiv> snd (apiMetadataTriageHandler env newResponseWriter r)"
  assumes "passes_session env r metadata user token"
  shows "take 2 calls = [Call_GetUserFromCookie, Call_GetSecret ''github-oauth-client-id'']
       \<and> \<not> (\<exists>c \<in> set (take 2 calls). remote_call c)
       \<and> (GetSecret env ''github-oauth-client-id'' = Inl err \<longrightarrow>
            w = http_Error newResponseWriter
                  (''Failed to get github-oauth-client-id secret: '' @ err)
                  StatusInternalServerError \<and>
            rw_status w = Some StatusInternalServerError \<and>
            prefix ''Failed to get github-oauth-client-id secret: '' (rw_body w) \<and>
            calls = [Call_GetUserFromCookie, Call_GetSecret ''github-oauth-client-id''] \<and>
            \<not> (\<exists>c \<in> set calls. remote_call c))"
proof -
  have 1: "take 2 calls = [Call_GetUserFromCookie, Call_GetSecret ''github-oauth-client-id'']"
    using assms(3)
    by (simp add: calls_def passes_defs triage_handler_defs
          split: sum.splits option.splits)
  then have 2: "\<not> (\<exists>c \<in> set (take 2 calls). remote_call c)"
    by simp
  have 3: "GetSecret env ''github-oauth-client-id'' = Inl err \<longrightarrow>
            w = http_Error newResponseWriter
                  (''Failed to get github-oauth-client-id secret: '' @ err)
                  StatusInternalServerError \<and>
            rw_status w = Some StatusInternalServerError \<and>
            prefix ''Failed to get github-oauth-client-id secret: '' (rw_body w) \<and>
            calls = [Call_GetUserFromCookie, Call_GetSecret ''github-oauth-client-id''] \<and>
            \<not> (\<exists>c \<in> set calls. remote_call c)"
    using assms(3)
    by (simp add: w_def calls_def passes_defs triage_handler_defs http_Error_new)
  from 1 2 3 show ?thesis by blast
qed

theorem triage_secret_lookup_witness:
  "passes_session
     (ex_triage_env (Inr Map.empty) ex_session (Inl ''not found'') (Inr 200) (Inr 200) (Inr ())
        None)
     ex_patch Map.empty ex_user ''tok''
   \<and> GetSecret
        (ex_triage_env (Inr Map.empty) ex_session (Inl ''not found'') (Inr 200) (Inr 200)
           (Inr ()) None)
        ''github-oauth-client-id'' = Inl ''not found''
   \<and> fst (apiMetadataTriageHandler
        (ex_triage_env (Inr Map.empty) ex_session (Inl ''not found'') (Inr 200) (Inr 200)
           (Inr ()) None)
        newResponseWriter ex_patch) =
       http_Error newResponseWriter ''Failed to get github-oauth-client-id secret: not found''
         StatusInternalServerError
   \<and> snd (apiMetadataTriageHandler
        (ex_triage_env (Inr Map.empty) ex_session (Inl ''not found'') (Inr 200) (Inr 200)
           (Inr ()) None)
        newResponseWriter ex_patch) =
       [Call_GetUserFromCookie, Call_GetSecret ''github-oauth-client-id'']
   \<and> passes_session ex_env_ok ex_patch Map.empty ex_user ''tok''
   \<and> take 2 (snd (apiMetadataTriageHandler ex_env_ok newResponseWriter ex_patch)) =
       [Call_GetUserFromCookie, Call_GetSecret ''github-oauth-client-id'']"
proof -
  let ?nosecret = "ex_triage_env (Inr Map.empty) ex_session (Inl ''not found'') (Inr 200)
      (Inr 200) (Inr ()) None"
  note ex_defs = ex_request_def ex_patch_def ex_triage_env_def ex_session_def ex_env_ok_def
    Header_Get_def
  have a: "passes_session ?nosecret ex_patch Map.empty ex_user ''tok''"
    by (simp add: passes_defs ex_defs)
  have a1: "GetSecret ?nosecret ''github-oauth-client-id'' = Inl ''not found''"
    by (simp add: ex_defs)
  note A = triage_secret_lookup [where err = "''not found''", OF a, THEN conjunct2,
      THEN conjunct2, THEN mp, OF a1]
  have "fst (apiMetadataTriageHandler ?nosecret newResponseWriter ex_patch) =
       http_Error newResponseWriter (''Failed to get github-oauth-client-id secret: '' @ ''not found'')
         StatusInternalServerError"
    by (rule A [THEN conjunct1])
  then have a': "fst (apiMetadataTriageHandler ?nosecret newResponseWriter ex_patch) =
       http_Error newResponseWriter ''Failed to get github-oauth-client-id secret: not found''
         StatusInternalServerError"
    by simp
  have a'': "snd (apiMetadataTriageHandler ?nosecret newResponseWriter ex_patch) =
       [Call_GetUserFromCookie, Call_GetSecret ''github-oauth-client-id'']"
    by (rule A [THEN conjunct2, THEN conjunct2, THEN conjunct2, THEN conjunct1])
  have b: "passes_session ex_env_ok ex_patch Map.empty ex_user ''tok''"
    by (simp add: passes_defs ex_defs)
  have b': "take 2 (snd (apiMetadataTriageHandler ex_env_ok newResponseWriter ex_patch)) =
       [Call_GetUserFromCookie, Call_GetSecret ''github-oauth-client-id'']"
    by (rule triage_secret_lookup [OF b, THEN conjunct1])
  show ?thesis by (intro conjI) (rule a a1 a' a'' b b')+
qed

text \<open>
  C9. For a request that passed every authorization step: if the bot client cannot be
  obtained the answer is 500 with its own message and no submission is attempted; if the
  submission fails the answer is 500 with a message that wraps the error; otherwise the
  answer is 201 with an empty body. The two failure answers are never equal.
\<close>

theorem triage_submission_outcome:
  fixes env :: "('a, 'cl) triage_env" and r :: Request
  defines "w \<equiv> fst (apiMetadataTriageHandler env newResponseWriter r)"
    and "calls \<equiv> snd (apiMetadataTriageHandler env newResponseWriter r)"
    and "bot_call \<equiv> Call_GetGithubClientFromToken ''github-wpt-fyi-bot-token''"
  assumes "passes_membership env r metadata user token clientID"
  shows "(GetGithubClientFromToken env ''github-wpt-fyi-bot-token'' = Inl err \<longrightarrow>
            w = http_Error newResponseWriter (''Unable to get Github Client: '' @ err)
                  StatusInternalServerError \<and>
            calls = authorization_calls token clientID @ [bot_call] \<and>
            \<not> (\<exists>c \<in> set calls. is_submission c))
       \<and> (\<forall>client tm.
            GetGithubClientFromToken env ''github-wpt-fyi-bot-token'' = Inr client \<and>
            tm = \<lparr>tm_metadataGithub = \<lparr>githubClient = client, authorName = GitHubHandle user,
                                        authorEmail = GithuhEmail user\<rparr>\<rparr> \<longrightarrow>
            calls = authorization_calls token clientID @ [bot_call, Call_triage tm metadata] \<and>
            (triage env tm metadata = Some err \<longrightarrow>
               w = http_Error newResponseWriter (''Unable to triage metadata: '' @ err)
                     StatusInternalServerError) \<and>
            (triage env tm metadata = None \<longrightarrow>
               w = \<lparr>rw_status = Some StatusCreated, rw_body = []\<rparr>))
       \<and> (\<forall>e1 e2.
            http_Error newResponseWriter (''Unable to get Github Client: '' @ e1)
              StatusInternalServerError \<noteq>
            http_Error newResponseWriter (''Unable to triage metadata: '' @ e2)
              StatusInternalServerError)"
proof -
  have 1: "GetGithubClientFromToken env ''github-wpt-fyi-bot-token'' = Inl err \<longrightarrow>
            w = http_Error newResponseWriter (''Unable to get Github Client: '' @ err)
                  StatusInternalServerError \<and>
            calls = authorization_calls token clientID @ [bot_call] \<and>
            \<not> (\<exists>c \<in> set calls. is_submission c)"
    using assms(4)
    by (simp add: w_def calls_def bot_call_def passes_defs triage_handler_defs
          authorization_calls_def)
  have 2: "\<forall>client tm.
            GetGithubClientFromToken env ''github-wpt-fyi-bot-token'' = Inr client \<and>
            tm = \<lparr>tm_metadataGithub = \<lparr>githubClient = client, authorName = GitHubHandle user,
                                        authorEmail = GithuhEmail user\<rparr>\<rparr> \<longrightarrow>
            calls = authorization_calls token clientID @ [bot_call, Call_triage tm metadata] \<and>
            (triage env tm metadata = Some err \<longrightarrow>
               w = http_Error newResponseWriter (''Unable to triage metadata: '' @ err)
                     StatusInternalServerError) \<and>
            (triage env tm metadata = None \<longrightarrow>
               w = \<lparr>rw_status = Some StatusCreated, rw_body = []\<rparr>)"
    using assms(4)
    by (auto simp: w_def calls_def bot_call_def passes_defs triage_handler_defs
          authorization_calls_def WriteHeader_def newResponseWriter_def split: option.splits)
  have 3: "\<forall>e1 e2.
            http_Error newResponseWriter (''Unable to get Github Client: '' @ e1)
              StatusInternalServerError \<noteq>
            http_Error newResponseWriter (''Unable to triage metadata: '' @ e2)
              StatusInternalServerError"
    by (simp add: http_Error_new)
  from 1 2 3 show ?thesis by blast
qed

theorem triage_submission_outcome_witness:
  "passes_membership ex_env_ok ex_patch Map.empty ex_user ''tok'' ''id''
   \<and> fst (apiMetadataTriageHandler ex_env_ok newResponseWriter ex_patch) =
       \<lparr>rw_status = Some StatusCreated, rw_body = []\<rparr>
   \<and> passes_membership
        (ex_triage_env (Inr Map.empty) ex_session (Inr ''id'') (Inr 200) (Inr 200) (Inr ())
           (Some ''conflict''))
        ex_patch Map.empty ex_user ''tok'' ''id''
   \<and> fst (apiMetadataTriageHandler
        (ex_triage_env (Inr Map.empty) ex_session (Inr ''id'') (Inr 200) (Inr 200) (Inr ())
           (Some ''conflict''))
        newResponseWriter ex_patch) =
       http_Error newResponseWriter ''Unable to triage metadata: conflict''
         StatusInternalServerError
   \<and> passes_membership
        (ex_triage_env (Inr Map.empty) ex_session (Inr ''id'') (Inr 200) (Inr 200)
           (Inl ''no such secret'') None)
        ex_patch Map.empty ex_user ''tok'' ''id''
   \<and> fst (apiMetadataTriageHandler
        (ex_triage_env (Inr Map.empty) ex_session (Inr ''id'') (Inr 200) (Inr 200)
           (Inl ''no such secret'') None)
        newResponseWriter ex_patch) =
       http_Error newResponseWriter ''Unable to get Github Client: no such secret''
         StatusInternalServerError
   \<and> snd (apiMetadataTriageHandler
        (ex_triage_env (Inr Map.empty) ex_session (Inr ''id'') (Inr 200) (Inr 200)
           (Inl ''no such secret'') None)
        newResponseWriter ex_patch) =
       authorization_calls ''tok'' ''id'' @
         [Call_GetGithubClientFromToken ''github-wpt-fyi-bot-token'']"
proof -
  let ?fail = "ex_triage_env (Inr Map.empty) ex_session (Inr ''id'') (Inr 200) (Inr 200) (Inr ())
           (Some ''conflict'')"
  let ?nobot = "ex_triage_env (Inr Map.empty) ex_session (Inr ''id'') (Inr 200) (Inr 200)
           (Inl ''no such secret'') None"
  let ?tm = "\<lparr>tm_metadataGithub = \<lparr>githubClient = (), authorName = GitHubHandle ex_user,
                                     authorEmail = GithuhEmail ex_user\<rparr>\<rparr>"
  note ex_defs = ex_request_def ex_patch_def ex_triage_env_def ex_session_def ex_env_ok_def
    Header_Get_def
  have a: "passes_membership ex_env_ok ex_patch Map.empty ex_user ''tok'' ''id''"
    by (simp add: passes_defs ex_defs)
  have a1: "GetGithubClientFromToken ex_env_ok ''github-wpt-fyi-bot-token'' = Inr () \<and> ?tm = ?tm"
    by (simp add: ex_defs)
  have a2: "triage ex_env_ok ?tm Map.empty = None" by (simp add: ex_defs)
  note A = triage_submission_outcome [OF a, THEN conjunct2, THEN conjunct1, THEN spec, THEN spec,
      THEN mp, OF a1]
  have a': "fst (apiMetadataTriageHandler ex_env_ok newResponseWriter ex_patch) =
       \<lparr>rw_status = Some StatusCreated, rw_body = []\<rparr>"
    by (rule A [THEN conjunct2, THEN conjunct2, THEN mp, OF a2])
  have b: "passes_membership ?fail ex_patch Map.empty ex_user ''tok'' ''id''"
    by (simp add: passes_defs ex_defs)
  have b1: "GetGithubClientFromToken ?fail ''github-wpt-fyi-bot-token'' = Inr () \<and> ?tm = ?tm"
    by (simp add: ex_defs)
  have b2: "triage ?fail ?tm Map.empty = Some ''conflict''" by (simp add: ex_defs)
  note B = triage_submission_outcome [where err = "''conflict''", OF b, THEN conjunct2,
      THEN conjunct1, THEN spec, THEN spec, THEN mp, OF b1]
  have "fst (apiMetadataTriageHandler ?fail newResponseWriter ex_patch) =
       http_Error newResponseWriter (''Unable to triage metadata: '' @ ''conflict'')
         StatusInternalServerError"
    by (rule B [THEN conjunct2, THEN conjunct1, THEN mp, OF b2])
  then have b': "fst (apiMetadataTriageHandler ?fail newResponseWriter ex_patch) =
       http_Error newResponseWriter ''Unable to triage metadata: conflict''
         StatusInternalServerError"
    by simp
  have c: "passes_membership ?nobot ex_patch Map.empty ex_user ''tok'' ''id''"
    by (simp add: passes_defs ex_defs)
  have c1: "GetGithubClientFromToken ?nobot ''github-wpt-fyi-bot-token'' = Inl ''no such secret''"
    by (simp add: ex_defs)
  note C = triage_submission_outcome [where err = "''no such secret''", OF c, THEN conjunct1,
      THEN mp, OF c1]
  have "fst (apiMetadataTriageHandler ?nobot newResponseWriter ex_patch) =
       http_Error newResponseWriter (''Unable to get Github Client: '' @ ''no such secret'')
         StatusInternalServerError"
    by (rule C [THEN conjunct1])
  then have c': "fst (apiMetadataTriageHandler ?nobot newResponseWriter ex_patch) =
       http_Error newResponseWriter ''Unable to get Github Client: no such secret''
         StatusInternalServerError"
    by simp
  have c'': "snd (apiMetadataTriageHandler ?nobot newResponseWriter ex_patch) =
       authorization_calls ''tok'' ''id'' @
         [Call_GetGithubClientFromToken ''github-wpt-fyi-bot-token'']"
    by (rule C [THEN conjunct2, THEN conjunct1])
  show ?thesis by (intro conjI) (rule a a' b b' c c' c'')+
qed


section \<open>Properties of the metadata query handler\<close>

lemmas ServeHTTP_defs = ServeHTTP_def ReadAll_def Close_def Let_def

lemma not_single_link_cases:
  "(\<forall>l. args \<noteq> [Link l]) \<longleftrightarrow>
     (args = [] \<or> 1 < length args \<or> (\<exists>q. args = [OtherQuery q]))"
proof (cases args)
  case Nil
  then show ?thesis by simp
next
  case (Cons x xs)
  then show ?thesis by (cases x; cases xs) auto
qed

lemma assert_not_single_link:
  "\<forall>l. args \<noteq> [Link l] \<Longrightarrow>
   \<exists>al. (if length args = 1 then assert_AbstractLink (args ! 0) else (zero_AbstractLink, False)) =
     (al, False)"
proof (cases args)
  case Nil
  then show ?thesis by simp
next
  case (Cons x xs)
  assume "\<forall>l. args \<noteq> [Link l]"
  with Cons show ?thesis by (cases x; cases xs) auto
qed

text \<open>
  C4. For a POST request: a body that was read and closed but does not decode is answered
  400 with the parse error as the message; a decoded query whose argument list is empty, has
  more than one element, or is a single argument that is not a link predicate is answered
  400 with the "non Link search query" message; in neither case is the metadata fetched.
  The fetch happens only when the body decoded to a query with exactly one argument, a link
  predicate, and then does happen once the product list is parsed and non-empty.
\<close>

theorem metadata_post_requires_link_query:
  fixes h :: MetadataHandler and env :: "('a, 'q, 'ps) metadata_env" and r :: Request
  defines "w \<equiv> fst (ServeHTTP h env newResponseWriter r)"
    and "effects \<equiv> snd (ServeHTTP h env newResponseWriter r)"
    and "decoded \<equiv> (\<lambda>res. read_err (Body r) = None \<and> close_err (Body r) = None \<and>
           Unmarshal_AbstractExists env (pending (Body r)) = res)"
  assumes "Method r = ''POST''"
  shows "(decoded (Inl perr) \<longrightarrow>
            w = http_Error newResponseWriter perr StatusBadRequest \<and> effects = [])
       \<and> (decoded (Inr ae) \<and>
            (Args ae = [] \<or> 1 < length (Args ae) \<or> (\<exists>q. Args ae = [OtherQuery q])) \<longrightarrow>
            w = http_Error newResponseWriter
                  ''Error from request: non Link search query for api/metadata'' StatusBadRequest \<and>
            \<not> (\<exists>e \<in> set effects. is_fetch e))
       \<and> ((\<exists>e \<in> set effects. is_fetch e) \<longrightarrow>
            (\<exists>ae l. decoded (Inr ae) \<and> Args ae = [Link l]))
       \<and> (decoded (Inr ae) \<and> Args ae = [Link l] \<and>
            ParseProductOrBrowserParams env (URL_Query (RequestURL r)) = Inr productSpecs \<and>
            productSpecs \<noteq> [] \<longrightarrow>
            effects = [Call_GetMetadataResponseOnProducts productSpecs (metadataURL h)])"
proof -
  note post = assms(4)
  have 1: "decoded (Inl perr) \<longrightarrow>
            w = http_Error newResponseWriter perr StatusBadRequest \<and> effects = []"
    using post by (simp add: w_def effects_def decoded_def ServeHTTP_defs)
  have rej: "ServeHTTP h env newResponseWriter r =
       (http_Error newResponseWriter
          ''Error from request: non Link search query for api/metadata'' StatusBadRequest,
        [Log_Errorf ''Error from request: non Link search query %s for api/metadata'' ae'])"
    if u: "decoded (Inr ae')" and n: "\<forall>l. Args ae' \<noteq> [Link l]" for ae'
  proof -
    from assert_not_single_link [OF n]
    obtain al where "(if length (Args ae') = 1 then assert_AbstractLink (Args ae' ! 0)
          else (zero_AbstractLink, False)) = (al, False)"
      by blast
    with post u show ?thesis by (simp add: decoded_def ServeHTTP_defs)
  qed
  have 2: "decoded (Inr ae) \<and>
            (Args ae = [] \<or> 1 < length (Args ae) \<or> (\<exists>q. Args ae = [OtherQuery q])) \<longrightarrow>
            w = http_Error newResponseWriter
                  ''Error from request: non Link search query for api/metadata'' StatusBadRequest \<and>
            \<not> (\<exists>e \<in> set effects. is_fetch e)"
  proof
    assume a: "decoded (Inr ae) \<and>
            (Args ae = [] \<or> 1 < length (Args ae) \<or> (\<exists>q. Args ae = [OtherQuery q]))"
    then have "\<forall>l. Args ae \<noteq> [Link l]" by (simp add: not_single_link_cases)
    from rej [OF _ this] a show "w = http_Error newResponseWriter
                  ''Error from request: non Link search query for api/metadata'' StatusBadRequest \<and>
            \<not> (\<exists>e \<in> set effects. is_fetch e)"
      by (simp add: w_def effects_def)
  qed
  have 3: "(\<exists>e \<in> set effects. is_fetch e) \<longrightarrow>
            (\<exists>ae l. decoded (Inr ae) \<and> Args ae = [Link l])"
  proof (cases "read_err (Body r) = None \<and> close_err (Body r) = None")
    case False
    with post show ?thesis
      by (auto simp: effects_def ServeHTTP_defs split: option.splits)
  next
    case rc: True
    show ?thesis
    proof (cases "Unmarshal_AbstractExists env (pending (Body r))")
      case (Inl e)
      with post rc show ?thesis by (simp add: effects_def ServeHTTP_defs)
    next
      case (Inr ae')
      with rc have d: "decoded (Inr ae')" by (simp add: decoded_def)
      show ?thesis
      proof (cases "\<forall>l. Args ae' \<noteq> [Link l]")
        case True
        from rej [OF d True] show ?thesis by (simp add: effects_def)
      next
        case False
        with d show ?thesis by blast
      qed
    qed
  qed
  have 4: "decoded (Inr ae) \<and> Args ae = [Link l] \<and>
            ParseProductOrBrowserParams env (URL_Query (RequestURL r)) = Inr productSpecs \<and>
            productSpecs \<noteq> [] \<longrightarrow>
            effects = [Call_GetMetadataResponseOnProducts productSpecs (metadataURL h)]"
    using post
    by (auto simp: effects_def decoded_def ServeHTTP_defs ResponseWriter_Write_def
          split: sum.splits option.splits prod.splits)
  from 1 2 3 4 show ?thesis by blast
qed

theorem metadata_post_requires_link_query_witness:
  "Method ex_post = ''POST'' \<and> read_err (Body ex_post) = None \<and> close_err (Body ex_post) = None
   \<and> fst (ServeHTTP ex_handler (ex_metadata_env (Inl ''invalid character'')) newResponseWriter
            ex_post) =
       http_Error newResponseWriter ''invalid character'' StatusBadRequest
   \<and> snd (ServeHTTP ex_handler (ex_metadata_env (Inl ''invalid character'')) newResponseWriter
            ex_post) = []
   \<and> fst (ServeHTTP ex_handler (ex_metadata_env (Inr \<lparr>Args = []\<rparr>)) newResponseWriter ex_post) =
       http_Error newResponseWriter
         ''Error from request: non Link search query for api/metadata'' StatusBadRequest
   \<and> fst (ServeHTTP ex_handler
            (ex_metadata_env (Inr \<lparr>Args = [Link \<lparr>Pattern = ''a''\<rparr>, Link \<lparr>Pattern = ''b''\<rparr>]\<rparr>))
            newResponseWriter ex_post) =
       http_Error newResponseWriter
         ''Error from request: non Link search query for api/metadata'' StatusBadRequest
   \<and> fst (ServeHTTP ex_handler (ex_metadata_env (Inr \<lparr>Args = [OtherQuery ()]\<rparr>))
            newResponseWriter ex_post) =
       http_Error newResponseWriter
         ''Error from request: non Link search query for api/metadata'' StatusBadRequest
   \<and> snd (ServeHTTP ex_handler (ex_metadata_env (Inr \<lparr>Args = [Link \<lparr>Pattern = ''bug''\<rparr>]\<rparr>))
            newResponseWriter ex_post) =
       [Call_GetMetadataResponseOnProducts [''chrome''] ''https://metadata.example/archive'']"
proof -
  let ?none = "\<lparr>Args = []\<rparr> :: unit AbstractExists"
  let ?two = "\<lparr>Args = [Link \<lparr>Pattern = ''a''\<rparr>, Link \<lparr>Pattern = ''b''\<rparr>]\<rparr> :: unit AbstractExists"
  let ?other = "\<lparr>Args = [OtherQuery ()]\<rparr> :: unit AbstractExists"
  let ?one = "\<lparr>Args = [Link \<lparr>Pattern = ''bug''\<rparr>]\<rparr> :: unit AbstractExists"
  note ex_defs = ex_request_def ex_post_def ex_metadata_env_def ex_handler_def
  have m: "Method ex_post = ''POST''" by (simp add: ex_defs)
  have r: "read_err (Body ex_post) = None" by (simp add: ex_defs)
  have c: "close_err (Body ex_post) = None" by (simp add: ex_defs)
  note T = metadata_post_requires_link_query [OF m]
  have a: "read_err (Body ex_post) = None \<and> close_err (Body ex_post) = None \<and>
      Unmarshal_AbstractExists (ex_metadata_env (Inl ''invalid character''))
        (pending (Body ex_post)) = Inl ''invalid character''"
    by (simp add: ex_defs)
  note A = T [where h = ex_handler, THEN conjunct1, THEN mp, OF a]
  have a1: "fst (ServeHTTP ex_handler (ex_metadata_env (Inl ''invalid character''))
      newResponseWriter ex_post) =
       http_Error newResponseWriter ''invalid character'' StatusBadRequest"
    by (rule A [THEN conjunct1])
  have a2: "snd (ServeHTTP ex_handler (ex_metadata_env (Inl ''invalid character''))
      newResponseWriter ex_post) = []"
    by (rule A [THEN conjunct2])
  have n: "(read_err (Body ex_post) = None \<and> close_err (Body ex_post) = None \<and>
      Unmarshal_AbstractExists (ex_metadata_env (Inr ?none)) (pending (Body ex_post)) =
        Inr ?none) \<and>
      (Args ?none = [] \<or> 1 < length (Args ?none) \<or> (\<exists>q. Args ?none = [OtherQuery q]))"
    by (simp add: ex_defs)
  have n': "fst (ServeHTTP ex_handler (ex_metadata_env (Inr ?none)) newResponseWriter ex_post) =
       http_Error newResponseWriter
         ''Error from request: non Link search query for api/metadata'' StatusBadRequest"
    by (rule T [where h = ex_handler, THEN conjunct2, THEN conjunct1, THEN mp, OF n,
          THEN conjunct1])
  have t: "(read_err (Body ex_post) = None \<and> close_err (Body ex_post) = None \<and>
      Unmarshal_AbstractExists (ex_metadata_env (Inr ?two)) (pending (Body ex_post)) =
        Inr ?two) \<and>
      (Args ?two = [] \<or> 1 < length (Args ?two) \<or> (\<exists>q. Args ?two = [OtherQuery q]))"
    by (simp add: ex_defs)
  have t': "fst (ServeHTTP ex_handler (ex_metadata_env (Inr ?two)) newResponseWriter ex_post) =
       http_Error newResponseWriter
         ''Error from request: non Link search query for api/metadata'' StatusBadRequest"
    by (rule T [where h = ex_handler, THEN conjunct2, THEN conjunct1, THEN mp, OF t,
          THEN conjunct1])
  have o: "(read_err (Body ex_post) = None \<and> close_err (Body ex_post) = None \<and>
      Unmarshal_AbstractExists (ex_metadata_env (Inr ?other)) (pending (Body ex_post)) =
        Inr ?other) \<and>
      (Args ?other = [] \<or> 1 < length (Args ?other) \<or> (\<exists>q. Args ?other = [OtherQuery q]))"
    by (simp add: ex_defs)
  have o': "fst (ServeHTTP ex_handler (ex_metadata_env (Inr ?other)) newResponseWriter ex_post) =
       http_Error newResponseWriter
         ''Error from request: non Link search query for api/metadata'' StatusBadRequest"
    by (rule T [where h = ex_handler, THEN conjunct2, THEN conjunct1, THEN mp, OF o,
          THEN conjunct1])
  have l: "(read_err (Body ex_post) = None \<and> close_err (Body ex_post) = None \<and>
      Unmarshal_AbstractExists (ex_metadata_env (Inr ?one)) (pending (Body ex_post)) =
        Inr ?one) \<and> Args ?one = [Link \<lparr>Pattern = ''bug''\<rparr>] \<and>
      ParseProductOrBrowserParams (ex_metadata_env (Inr ?one)) (URL_Query (RequestURL ex_post)) =
        Inr [''chrome''] \<and> [''chrome''] \<noteq> []"
    by (simp add: ex_defs)
  have "snd (ServeHTTP ex_handler (ex_metadata_env (Inr ?one)) newResponseWriter ex_post) =
       [Call_GetMetadataResponseOnProducts [''chrome''] (metadataURL ex_handler)]"
    by (rule T [where h = ex_handler, THEN conjunct2, THEN conjunct2, THEN conjunct2, THEN mp,
          OF l])
  then have l': "snd (ServeHTTP ex_handler (ex_metadata_env (Inr ?one)) newResponseWriter ex_post) =
       [Call_GetMetadataResponseOnProducts [''chrome''] ''https://metadata.example/archive'']"
    by (simp add: ex_handler_def)
  show ?thesis by (intro conjI) (rule m r c a1 a2 n' t' o' l')+
qed

end
